theory Spec2Isabelle
  imports Complex_Main
begin

section \<open>Numbers, clocks, errors\<close>

text \<open>
  The simulator computes with Python and numpy floats, which are IEEE 754 binary64 numbers.
  The embedding treats them in two ways.

  On the path of the flexible workload (the workload levels of the IT load model, the
  controller's configuration, and the sum and the difference by which \<open>compute_control\<close>
  moves the flexible level) a value is a double: a float literal \<open>c\<close> that is not a double
  itself is \<open>binary64 c\<close>, the nearest double, and a sum or difference is rounded by
  \<open>binary64\<close> as well. \<open>min\<close>, \<open>max\<close>, \<open>np.clip\<close> and the comparisons are exact on doubles.

  Everywhere else a float is embedded as the real number it stands for, every arithmetic
  operation is the exact one, and a comparison is the comparison of the exact values;
  rounding, infinities and \<open>nan\<close> are outside the embedding there. The configuration values
  are taken to be Python numbers (\<open>int\<close> or \<open>float\<close>), for which a division by zero raises
  \<open>ZeroDivisionError\<close>; that raise is a branch of the model wherever the source divides two
  such numbers. A quotient whose numerator is a numpy float (the chiller quotients of the
  cooling model, the mean of a series) does not raise in the source: for a zero divisor
  numpy warns and yields \<open>inf\<close> or \<open>nan\<close>. Such a quotient is written with the division of
  the reals, and no statement below depends on its value at a zero divisor.

  A \<open>datetime\<close> is embedded as the number of whole seconds since midnight of some day; the
  step size \<open>timestep_seconds\<close> is an integer number of seconds, as in the default
  configuration, and \<open>timedelta(seconds=dt)\<close> adds it. The range of \<open>datetime\<close> is not
  modelled.
\<close>

subsection \<open>Rounding to binary64\<close>

text \<open>
  Rounding to the nearest integer, ties to the even one.
\<close>

definition round_half_even :: "real \<Rightarrow> int" where
  "round_half_even q =
     (let f = \<lfloor>q\<rfloor>; r = q - of_int f
      in if r < 1 / 2 then f else if r > 1 / 2 then f + 1 else if even f then f else f + 1)"

text \<open>
  The exponent of the binade of \<open>x\<close>, not below the least normal exponent -1022 (smaller
  numbers are subnormal and share the spacing of that binade).
\<close>

definition binary64_exponent :: "real \<Rightarrow> int" where
  "binary64_exponent x = max (- 1022) \<lfloor>log 2 \<bar>x\<bar>\<rfloor>"

text \<open>
  \<open>binary64 x\<close> is the double nearest to \<open>x\<close>, ties to even: \<open>x\<close> is rounded to a multiple
  of the spacing \<open>2 ^ (e - 52)\<close> of its binade, 53 significant bits. A result beyond the
  largest double (\<open>inf\<close> in the source) is outside the embedding.
\<close>

definition binary64 :: "real \<Rightarrow> real" where
  "binary64 x =
     (if x = 0 then 0
      else let u = 2 powr of_int (binary64_exponent x - 52)
           in of_int (round_half_even (x / u)) * u)"

datatype error = ZeroDivisionError | ValueError

definition hour_of :: "int \<Rightarrow> nat" where
  "hour_of t = nat ((t div 3600) mod 24)"

text \<open>\<open>d.get(key, default)\<close> on a configuration dictionary.\<close>

definition get_or :: "'a option \<Rightarrow> 'a \<Rightarrow> 'a" where
  "get_or v d = (case v of None \<Rightarrow> d | Some x \<Rightarrow> x)"

text \<open>\<open>np.clip(x, lo, hi)\<close> is \<open>minimum(maximum(x, lo), hi)\<close>.\<close>

definition np_clip :: "real \<Rightarrow> real \<Rightarrow> real \<Rightarrow> real" where
  "np_clip x lo hi = min (max x lo) hi"

section \<open>IT load model (it_load_model.py)\<close>

record it_config =
  cfg_base_capacity_kw :: "real option"
  cfg_flex_capacity_kw :: "real option"
  cfg_num_servers :: "real option"
  cfg_server_idle_power_w :: "real option"
  cfg_server_max_power_w :: "real option"

record ITLoadModel =
  base_capacity_kw :: real
  flex_capacity_kw :: real
  total_capacity_kw :: real
  num_servers :: real
  server_idle_power_w :: real
  server_max_power_w :: real
  base_workload :: real
  flex_workload :: real
  current_power_kw :: real
  current_heat_btu_hr :: real

definition ITLoadModel_init :: "it_config \<Rightarrow> ITLoadModel" where
  "ITLoadModel_init config =
     \<lparr> base_capacity_kw = get_or (cfg_base_capacity_kw config) 500,
       flex_capacity_kw = get_or (cfg_flex_capacity_kw config) 500,
       total_capacity_kw =
         get_or (cfg_base_capacity_kw config) 500 + get_or (cfg_flex_capacity_kw config) 500,
       num_servers = get_or (cfg_num_servers config) 1000,
       server_idle_power_w = get_or (cfg_server_idle_power_w config) 100,
       server_max_power_w = get_or (cfg_server_max_power_w config) 300,
       base_workload = binary64 0.7,
       flex_workload = binary64 0.3,
       current_power_kw = 0,
       current_heat_btu_hr = 0 \<rparr>"

definition set_workload :: "ITLoadModel \<Rightarrow> real \<Rightarrow> real \<Rightarrow> ITLoadModel" where
  "set_workload m base_util flex_util =
     m\<lparr> base_workload := np_clip base_util 0 1, flex_workload := np_clip flex_util 0 1 \<rparr>"

text \<open>
  \<open>compute_power\<close> divides the two capacities by \<open>total_capacity_kw\<close>, all three being
  configuration numbers: the first quotient raises when the total is zero.
\<close>

definition compute_power :: "ITLoadModel \<Rightarrow> error + real" where
  "compute_power m =
     (if total_capacity_kw m = 0 then Inl ZeroDivisionError
      else
        let base_weight = base_capacity_kw m / total_capacity_kw m;
            flex_weight = flex_capacity_kw m / total_capacity_kw m;
            avg_utilization = base_workload m * base_weight + flex_workload m * flex_weight;
            power_per_server_w =
              server_idle_power_w m
                + (server_max_power_w m - server_idle_power_w m) * avg_utilization;
            total_power_w = power_per_server_w * num_servers m;
            total_power_kw = total_power_w / 1000
        in Inr total_power_kw)"

definition compute_heat :: "real \<Rightarrow> real" where
  "compute_heat power_kw = power_kw * 3412.14"

text \<open>\<open>update(dt)\<close>: the new model and the heat it returns; nothing is stored when
  \<open>compute_power\<close> raises.\<close>

definition ITLoadModel_update :: "ITLoadModel \<Rightarrow> int \<Rightarrow> error + (real \<times> ITLoadModel)" where
  "ITLoadModel_update m dt =
     (case compute_power m of
        Inl e \<Rightarrow> Inl e
      | Inr p \<Rightarrow>
          Inr (compute_heat p,
               m\<lparr> current_power_kw := p, current_heat_btu_hr := compute_heat p \<rparr>))"

record it_state =
  st_base_workload :: real
  st_flex_workload :: real
  st_total_utilization :: real
  st_power_kw :: real
  st_heat_btu_hr :: real

text \<open>
  \<open>get_state\<close> divides by \<open>total_capacity_kw\<close> as well. The orchestrator calls it in each
  step before \<open>set_workload\<close>; the numerator is then a Python float as long as no step has
  got past this call, so a zero total raises here.
\<close>

definition ITLoadModel_get_state :: "ITLoadModel \<Rightarrow> error + it_state" where
  "ITLoadModel_get_state m =
     (if total_capacity_kw m = 0 then Inl ZeroDivisionError
      else Inr \<lparr> st_base_workload = base_workload m,
                 st_flex_workload = flex_workload m,
                 st_total_utilization =
                   (base_workload m * base_capacity_kw m + flex_workload m * flex_capacity_kw m)
                     / total_capacity_kw m,
                 st_power_kw = current_power_kw m,
                 st_heat_btu_hr = current_heat_btu_hr m \<rparr>)"

section \<open>Cooling model (cooling_model.py)\<close>

datatype cooling_mode = MODE_FREE | MODE_HYBRID | MODE_MECHANICAL

record cooling_config =
  cfg_supply_temp_c :: "real option"
  cfg_outdoor_temp_c :: "real option"
  cfg_chiller_cop :: "real option"
  cfg_free_cooling_threshold_c :: "real option"
  cfg_thermal_mass_btu_f :: "real option"
  cfg_target_temp_c :: "real option"
  cfg_fan_pump_overhead :: "real option"

record CoolingModel =
  supply_temp_setpoint :: real
  outdoor_temp :: real
  chiller_cop :: real
  free_cooling_threshold :: real
  thermal_mass :: real
  target_temp :: real
  current_temp :: real
  current_mode :: cooling_mode
  current_cooling_power_kw :: real
  current_pue :: real
  fan_pump_overhead :: real

definition CoolingModel_init :: "cooling_config \<Rightarrow> CoolingModel" where
  "CoolingModel_init config =
     \<lparr> supply_temp_setpoint = get_or (cfg_supply_temp_c config) 18,
       outdoor_temp = get_or (cfg_outdoor_temp_c config) 20,
       chiller_cop = get_or (cfg_chiller_cop config) 3.5,
       free_cooling_threshold = get_or (cfg_free_cooling_threshold_c config) 15,
       thermal_mass = get_or (cfg_thermal_mass_btu_f config) 50000,
       target_temp = get_or (cfg_target_temp_c config) 22,
       current_temp = get_or (cfg_target_temp_c config) 22,
       current_mode = MODE_HYBRID,
       current_cooling_power_kw = 0,
       current_pue = 1.2,
       fan_pump_overhead = get_or (cfg_fan_pump_overhead config) 0.10 \<rparr>"

definition set_outdoor_temp :: "CoolingModel \<Rightarrow> real \<Rightarrow> CoolingModel" where
  "set_outdoor_temp c temp_c = c\<lparr> outdoor_temp := temp_c \<rparr>"

definition set_supply_temp :: "CoolingModel \<Rightarrow> real \<Rightarrow> CoolingModel" where
  "set_supply_temp c temp_c = c\<lparr> supply_temp_setpoint := temp_c \<rparr>"

definition compute_free_cooling_ratio :: "CoolingModel \<Rightarrow> real" where
  "compute_free_cooling_ratio c =
     (if outdoor_temp c \<le> free_cooling_threshold c then 1
      else if outdoor_temp c \<ge> target_temp c then 0
      else 1 - ((outdoor_temp c - free_cooling_threshold c)
                  / (target_temp c - free_cooling_threshold c)))"

definition determine_cooling_mode :: "CoolingModel \<Rightarrow> cooling_mode" where
  "determine_cooling_mode c =
     (let free_ratio = compute_free_cooling_ratio c
      in if free_ratio \<ge> 0.95 then MODE_FREE
         else if free_ratio > 0.1 then MODE_HYBRID
         else MODE_MECHANICAL)"

definition compute_cooling_power :: "CoolingModel \<Rightarrow> real \<Rightarrow> cooling_mode option \<Rightarrow> real" where
  "compute_cooling_power c heat_load_btu_hr mode_arg =
     (let mode = (case mode_arg of None \<Rightarrow> determine_cooling_mode c | Some m \<Rightarrow> m);
          heat_load_kw = heat_load_btu_hr / 3412.14
      in case mode of
           MODE_FREE \<Rightarrow> heat_load_kw * 0.03
         | MODE_HYBRID \<Rightarrow>
             (let free_ratio = compute_free_cooling_ratio c;
                  mech_load_kw = heat_load_kw * (1 - free_ratio);
                  mech_power_kw = mech_load_kw / chiller_cop c;
                  fan_pump_power_kw = heat_load_kw * fan_pump_overhead c
              in mech_power_kw + fan_pump_power_kw)
         | MODE_MECHANICAL \<Rightarrow>
             (let chiller_power_kw = heat_load_kw / chiller_cop c;
                  fan_pump_power_kw = heat_load_kw * fan_pump_overhead c
              in chiller_power_kw + fan_pump_power_kw))"

definition compute_pue :: "real \<Rightarrow> real \<Rightarrow> real" where
  "compute_pue it_power_kw cooling_power_kw =
     (if it_power_kw \<le> 0 then 1
      else
        let other_overhead_kw = it_power_kw * 0.05;
            total_power_kw = it_power_kw + cooling_power_kw + other_overhead_kw
        in total_power_kw / it_power_kw)"

definition update_thermal_state :: "CoolingModel \<Rightarrow> real \<Rightarrow> int \<Rightarrow> CoolingModel" where
  "update_thermal_state c heat_load_btu_hr dt =
     (let heat_in_btu = heat_load_btu_hr * (real_of_int dt / 3600);
          temp_rise = (if thermal_mass c > 0 then heat_in_btu / thermal_mass c else 0)
      in c\<lparr> current_temp := target_temp c + temp_rise * 0.1 \<rparr>)"

text \<open>\<open>update(dt, heat_load_btu_hr)\<close>: the cooling power it returns and the new model.\<close>

definition CoolingModel_update :: "CoolingModel \<Rightarrow> int \<Rightarrow> real \<Rightarrow> real \<times> CoolingModel" where
  "CoolingModel_update c dt heat_load_btu_hr =
     (let c1 = c\<lparr> current_mode := determine_cooling_mode c \<rparr>;
          c2 = c1\<lparr> current_cooling_power_kw :=
                      compute_cooling_power c1 heat_load_btu_hr (Some (current_mode c1)) \<rparr>;
          c3 = update_thermal_state c2 heat_load_btu_hr dt
      in (current_cooling_power_kw c3, c3))"

definition compute_current_pue :: "CoolingModel \<Rightarrow> real \<Rightarrow> real \<times> CoolingModel" where
  "compute_current_pue c it_power_kw =
     (let p = compute_pue it_power_kw (current_cooling_power_kw c)
      in (p, c\<lparr> current_pue := p \<rparr>))"

record cooling_state =
  st_mode :: cooling_mode
  st_cooling_power_kw :: real
  st_pue :: real
  st_current_temp_c :: real
  st_outdoor_temp_c :: real
  st_supply_temp_c :: real
  st_free_cooling_ratio :: real

definition CoolingModel_get_state :: "CoolingModel \<Rightarrow> cooling_state" where
  "CoolingModel_get_state c =
     \<lparr> st_mode = current_mode c,
       st_cooling_power_kw = current_cooling_power_kw c,
       st_pue = current_pue c,
       st_current_temp_c = current_temp c,
       st_outdoor_temp_c = outdoor_temp c,
       st_supply_temp_c = supply_temp_setpoint c,
       st_free_cooling_ratio = compute_free_cooling_ratio c \<rparr>"

section \<open>Grid signal monitor (grid_monitor.py)\<close>

record grid_config =
  cfg_base_price_per_kwh :: "real option"
  cfg_price_multiplier_peak :: "real option"
  cfg_grid_start_time :: "int option"

text \<open>The dictionary \<open>current_state\<close>; the key \<open>outdoor_temp_c\<close> is absent until the
  orchestrator writes it.\<close>

record grid_state =
  gs_timestamp :: int
  gs_hour :: nat
  gs_renewable_pct :: real
  gs_grid_stress :: real
  gs_price_per_kwh :: real
  gs_carbon_intensity_gco2_kwh :: real
  gs_outdoor_temp_c :: "real option"

record GridSignalMonitor =
  base_price :: real
  price_multiplier_peak :: real
  start_time :: int
  renewable_profile :: "real list"
  price_profile :: "real list"
  carbon_profile :: "real list"
  grid_current_time :: int
  current_state :: "grid_state option"

definition generate_renewable_profile :: "real list" where
  "generate_renewable_profile =
     map (\<lambda>h. let solar = max 0 (sin ((real h - 6) * pi / 12));
                   wind_base = 0.4;
                   wind_variation = 0.2 * sin (real h * pi / 12 + pi);
                   wind = wind_base + wind_variation;
                   renewable = 0.6 * solar + 0.4 * wind
               in np_clip renewable 0 1) [0..<24]"

definition generate_price_profile :: "real \<Rightarrow> real \<Rightarrow> real list" where
  "generate_price_profile bp mult =
     map (\<lambda>h. if 16 \<le> h \<and> h < 21 then bp * mult
               else if (12 \<le> h \<and> h < 16) \<or> (21 \<le> h \<and> h < 23) then bp * 1.3
               else bp) [0..<24]"

definition generate_carbon_profile :: "real list \<Rightarrow> real list" where
  "generate_carbon_profile renewable =
     (let base_carbon = 500; clean_carbon = 50
      in map (\<lambda>r. base_carbon - (base_carbon - clean_carbon) * r) renewable)"

text \<open>The second argument is \<open>datetime.now()\<close>, read for the default of \<open>start_time\<close>.\<close>

definition GridSignalMonitor_init :: "grid_config \<Rightarrow> int \<Rightarrow> GridSignalMonitor" where
  "GridSignalMonitor_init config now =
     \<lparr> base_price = get_or (cfg_base_price_per_kwh config) 0.12,
       price_multiplier_peak = get_or (cfg_price_multiplier_peak config) 2.0,
       start_time = get_or (cfg_grid_start_time config) now,
       renewable_profile = generate_renewable_profile,
       price_profile =
         generate_price_profile (get_or (cfg_base_price_per_kwh config) 0.12)
           (get_or (cfg_price_multiplier_peak config) 2.0),
       carbon_profile = generate_carbon_profile generate_renewable_profile,
       grid_current_time = get_or (cfg_grid_start_time config) now,
       current_state = None \<rparr>"

text \<open>
  \<open>compute_stress_level\<close> draws \<open>np.random.uniform(-0.1, 0.1)\<close>; the draw is the argument
  \<open>u\<close>, supplied by the caller. The hour is an hour of day, below 24, and the profiles have
  24 entries.
\<close>

definition compute_stress_level :: "GridSignalMonitor \<Rightarrow> nat \<Rightarrow> real \<Rightarrow> real" where
  "compute_stress_level g hour u =
     (let demand_stress =
            (if 16 \<le> hour \<and> hour < 21 then 0.7
             else if (12 \<le> hour \<and> hour < 16) \<or> (21 \<le> hour \<and> hour < 23) then 0.4
             else 0.2);
          renewable_factor = 1 - renewable_profile g ! hour;
          stress = demand_stress * (0.5 + 0.5 * renewable_factor);
          stress = stress + u
      in np_clip stress 0 1)"

definition get_current_state :: "GridSignalMonitor \<Rightarrow> real \<Rightarrow> grid_state \<times> GridSignalMonitor" where
  "get_current_state g u =
     (let hour = hour_of (grid_current_time g);
          st = \<lparr> gs_timestamp = grid_current_time g,
                 gs_hour = hour,
                 gs_renewable_pct = renewable_profile g ! hour,
                 gs_grid_stress = compute_stress_level g hour u,
                 gs_price_per_kwh = price_profile g ! hour,
                 gs_carbon_intensity_gco2_kwh = carbon_profile g ! hour,
                 gs_outdoor_temp_c = None \<rparr>
      in (st, g\<lparr> current_state := Some st \<rparr>))"

definition GridSignalMonitor_update :: "GridSignalMonitor \<Rightarrow> int \<Rightarrow> real \<Rightarrow> grid_state \<times> GridSignalMonitor" where
  "GridSignalMonitor_update g dt u = get_current_state (g\<lparr> grid_current_time := grid_current_time g + dt \<rparr>) u"

section \<open>Controller (simple_controller.py)\<close>

record controller_config =
  cfg_workload_adjustment_rate :: "real option"
  cfg_renewable_threshold_high :: "real option"
  cfg_renewable_threshold_low :: "real option"
  cfg_stress_threshold_high :: "real option"

record SimpleController =
  adjustment_rate :: real
  renewable_threshold_high :: real
  renewable_threshold_low :: real
  stress_threshold_high :: real
  target_base_util :: real
  target_flex_util :: real

definition SimpleController_init :: "controller_config \<Rightarrow> SimpleController" where
  "SimpleController_init config =
     \<lparr> adjustment_rate = get_or (cfg_workload_adjustment_rate config) (binary64 0.2),
       renewable_threshold_high = get_or (cfg_renewable_threshold_high config) (binary64 0.6),
       renewable_threshold_low = get_or (cfg_renewable_threshold_low config) (binary64 0.3),
       stress_threshold_high = get_or (cfg_stress_threshold_high config) (binary64 0.7),
       target_base_util = binary64 0.7,
       target_flex_util = binary64 0.3 \<rparr>"

record controller_state =
  st_target_base_util :: real
  st_target_flex_util :: real

definition SimpleController_get_state :: "SimpleController \<Rightarrow> controller_state" where
  "SimpleController_get_state k =
     \<lparr> st_target_base_util = target_base_util k, st_target_flex_util = target_flex_util k \<rparr>"

record cooling_params =
  cp_supply_temp :: real
  cp_mode :: cooling_mode

record control =
  workload_base :: real
  workload_flex :: real
  control_cooling_params :: cooling_params

text \<open>The snapshot that \<open>get_system_state\<close> of the orchestrator builds.\<close>

record system_state =
  ss_it_load :: it_state
  ss_cooling :: cooling_state
  ss_grid :: "grid_state option"
  ss_controller :: controller_state
  ss_time :: int

text \<open>
  \<open>compute_control\<close>. The sum \<open>current_flex + self.adjustment_rate\<close> and the difference
  \<open>current_flex - self.adjustment_rate\<close> are double operations, rounded once; the literals
  0.7 and 0.1 are the doubles nearest to them, 0.5 and 1.0 are doubles.
\<close>

definition compute_control ::
  "SimpleController \<Rightarrow> system_state \<Rightarrow> grid_state \<Rightarrow> control \<times> SimpleController" where
  "compute_control k sys gs =
     (let renewable_pct = gs_renewable_pct gs;
          stress_level = gs_grid_stress gs;
          outdoor = get_or (gs_outdoor_temp_c gs) 20;
          base_target = binary64 0.7;
          current_flex = st_flex_workload (ss_it_load sys);
          flex_target =
            (if renewable_pct \<ge> renewable_threshold_high k \<and> stress_level < 0.5
               then min 1.0 (binary64 (current_flex + adjustment_rate k))
             else if renewable_pct \<le> renewable_threshold_low k
                       \<or> stress_level \<ge> stress_threshold_high k
               then max (binary64 0.1) (binary64 (current_flex - adjustment_rate k))
             else current_flex);
          params =
            (if outdoor < 15 then \<lparr> cp_supply_temp = 20, cp_mode = MODE_FREE \<rparr>
             else if outdoor < 25 then \<lparr> cp_supply_temp = 18, cp_mode = MODE_HYBRID \<rparr>
             else \<lparr> cp_supply_temp = 16, cp_mode = MODE_MECHANICAL \<rparr>)
      in (\<lparr> workload_base = base_target, workload_flex = flex_target,
            control_cooling_params = params \<rparr>,
          k\<lparr> target_base_util := base_target, target_flex_util := flex_target \<rparr>))"

section \<open>Orchestrator (datacenter_optimizer.py)\<close>

record config =
  cfg_it_load :: "it_config option"
  cfg_cooling :: "cooling_config option"
  cfg_grid :: "grid_config option"
  cfg_controller :: "controller_config option"
  cfg_timestep_seconds :: "int option"
  cfg_start_time :: "int option"

record history =
  h_time :: "int list"
  h_it_power_kw :: "real list"
  h_cooling_power_kw :: "real list"
  h_total_power_kw :: "real list"
  h_pue :: "real list"
  h_base_workload :: "real list"
  h_flex_workload :: "real list"
  h_renewable_pct :: "real list"
  h_grid_stress :: "real list"
  h_price_per_kwh :: "real list"
  h_carbon_intensity :: "real list"
  h_cooling_mode :: "cooling_mode list"
  h_total_cost :: "real list"
  h_total_carbon :: "real list"

record DataCenterOptimizer =
  dc_config :: config
  it_load :: ITLoadModel
  cooling :: CoolingModel
  grid :: GridSignalMonitor
  controller :: SimpleController
  timestep :: int
  current_time :: int
  history :: history

text \<open>The empty dictionaries that stand for a missing component configuration.\<close>

definition empty_it_config :: it_config where
  "empty_it_config =
     \<lparr> cfg_base_capacity_kw = None, cfg_flex_capacity_kw = None, cfg_num_servers = None,
       cfg_server_idle_power_w = None, cfg_server_max_power_w = None \<rparr>"

definition empty_cooling_config :: cooling_config where
  "empty_cooling_config =
     \<lparr> cfg_supply_temp_c = None, cfg_outdoor_temp_c = None, cfg_chiller_cop = None,
       cfg_free_cooling_threshold_c = None, cfg_thermal_mass_btu_f = None,
       cfg_target_temp_c = None, cfg_fan_pump_overhead = None \<rparr>"

definition empty_grid_config :: grid_config where
  "empty_grid_config =
     \<lparr> cfg_base_price_per_kwh = None, cfg_price_multiplier_peak = None,
       cfg_grid_start_time = None \<rparr>"

definition empty_controller_config :: controller_config where
  "empty_controller_config =
     \<lparr> cfg_workload_adjustment_rate = None, cfg_renewable_threshold_high = None,
       cfg_renewable_threshold_low = None, cfg_stress_threshold_high = None \<rparr>"

definition empty_history :: history where
  "empty_history =
     \<lparr> h_time = [], h_it_power_kw = [], h_cooling_power_kw = [], h_total_power_kw = [],
       h_pue = [], h_base_workload = [], h_flex_workload = [], h_renewable_pct = [],
       h_grid_stress = [], h_price_per_kwh = [], h_carbon_intensity = [],
       h_cooling_mode = [], h_total_cost = [], h_total_carbon = [] \<rparr>"

text \<open>
  The constructor reads \<open>datetime.now()\<close> twice: \<open>now_grid\<close> when the grid monitor is
  built, \<open>now_top\<close> for the orchestrator's own clock.
\<close>

definition DataCenterOptimizer_init :: "config \<Rightarrow> int \<Rightarrow> int \<Rightarrow> DataCenterOptimizer" where
  "DataCenterOptimizer_init cfg now_grid now_top =
     \<lparr> dc_config = cfg,
       it_load = ITLoadModel_init (get_or (cfg_it_load cfg) empty_it_config),
       cooling = CoolingModel_init (get_or (cfg_cooling cfg) empty_cooling_config),
       grid = GridSignalMonitor_init (get_or (cfg_grid cfg) empty_grid_config) now_grid,
       controller = SimpleController_init (get_or (cfg_controller cfg) empty_controller_config),
       timestep = get_or (cfg_timestep_seconds cfg) 300,
       current_time = get_or (cfg_start_time cfg) now_top,
       history = empty_history \<rparr>"

text \<open>
  \<open>get_system_state\<close> evaluates \<open>self.it_load.get_state()\<close> first, so its raise is the
  raise of the snapshot.
\<close>

definition get_system_state :: "DataCenterOptimizer \<Rightarrow> error + system_state" where
  "get_system_state s =
     (case ITLoadModel_get_state (it_load s) of
        Inl e \<Rightarrow> Inl e
      | Inr its \<Rightarrow>
          Inr \<lparr> ss_it_load = its,
                ss_cooling = CoolingModel_get_state (cooling s),
                ss_grid = current_state (grid s),
                ss_controller = SimpleController_get_state (controller s),
                ss_time = current_time s \<rparr>)"

record metrics =
  m_time :: int
  m_it_power_kw :: real
  m_cooling_power_kw :: real
  m_total_power_kw :: real
  m_pue :: real
  m_cost :: real
  m_carbon_g :: real

text \<open>
  \<open>step\<close> is given in three parts, in the order of its body. \<open>step_inputs\<close> is the body up
  to the snapshot: the grid update, the outdoor temperature derived from the hour of the
  orchestrator's own clock, written into the grid state (the dictionary that the monitor
  keeps as \<open>current_state\<close>, so the monitor sees the write) and pushed to the cooling model.
\<close>

definition step_inputs :: "DataCenterOptimizer \<Rightarrow> real \<Rightarrow> grid_state \<times> DataCenterOptimizer" where
  "step_inputs s u =
     (let gu = GridSignalMonitor_update (grid s) (timestep s) u;
          hour = hour_of (current_time s);
          base_temp = 15;
          daily_variation = 10 * sin ((real hour - 6) * pi / 12);
          outdoor = base_temp + daily_variation;
          grid_state = (fst gu)\<lparr> gs_outdoor_temp_c := Some outdoor \<rparr>
      in (grid_state,
          s\<lparr> grid := (snd gu)\<lparr> current_state := Some grid_state \<rparr>,
             cooling := set_outdoor_temp (cooling s) outdoor \<rparr>))"

text \<open>
  \<open>apply_control\<close> is the body of \<open>step\<close> from \<open>set_workload\<close> to the end: it applies a
  control, advances the two models, records the metrics and advances the clock. When
  \<open>it_load.update\<close> raises, the workload and the setpoint have been written already.
\<close>

definition apply_control ::
  "DataCenterOptimizer \<Rightarrow> grid_state \<Rightarrow> control \<Rightarrow> (error + metrics) \<times> DataCenterOptimizer" where
  "apply_control s grid_state ctl =
     (let it1 = set_workload (it_load s) (workload_base ctl) (workload_flex ctl);
          c1 = set_supply_temp (cooling s) (cp_supply_temp (control_cooling_params ctl))
      in case ITLoadModel_update it1 (timestep s) of
           Inl e \<Rightarrow> (Inl e, s\<lparr> it_load := it1, cooling := c1 \<rparr>)
         | Inr hu \<Rightarrow>
             (let heat_load = fst hu;
                  it2 = snd hu;
                  cu = CoolingModel_update c1 (timestep s) heat_load;
                  cooling_power = fst cu;
                  it_power = current_power_kw it2;
                  pu = compute_current_pue (snd cu) it_power;
                  pue = fst pu;
                  c3 = snd pu;
                  total_power = it_power + cooling_power;
                  energy_kwh = total_power * (real_of_int (timestep s) / 3600);
                  cost = energy_kwh * gs_price_per_kwh grid_state;
                  carbon = energy_kwh * gs_carbon_intensity_gco2_kwh grid_state;
                  h = history s;
                  h' = \<lparr> h_time = h_time h @ [current_time s],
                         h_it_power_kw = h_it_power_kw h @ [it_power],
                         h_cooling_power_kw = h_cooling_power_kw h @ [cooling_power],
                         h_total_power_kw = h_total_power_kw h @ [total_power],
                         h_pue = h_pue h @ [pue],
                         h_base_workload = h_base_workload h @ [base_workload it2],
                         h_flex_workload = h_flex_workload h @ [flex_workload it2],
                         h_renewable_pct = h_renewable_pct h @ [gs_renewable_pct grid_state],
                         h_grid_stress = h_grid_stress h @ [gs_grid_stress grid_state],
                         h_price_per_kwh = h_price_per_kwh h @ [gs_price_per_kwh grid_state],
                         h_carbon_intensity =
                           h_carbon_intensity h @ [gs_carbon_intensity_gco2_kwh grid_state],
                         h_cooling_mode = h_cooling_mode h @ [current_mode c3],
                         h_total_cost = h_total_cost h @ [cost],
                         h_total_carbon = h_total_carbon h @ [carbon] \<rparr>;
                  t' = current_time s + timestep s
              in (Inr \<lparr> m_time = t', m_it_power_kw = it_power,
                         m_cooling_power_kw = cooling_power, m_total_power_kw = total_power,
                         m_pue = pue, m_cost = cost, m_carbon_g = carbon \<rparr>,
                  s\<lparr> it_load := it2, cooling := c3, history := h', current_time := t' \<rparr>)))"

text \<open>
  \<open>step\<close>: the outcome (the exception raised, or the metrics returned) and the orchestrator
  as the call leaves it. The argument \<open>u\<close> is the random draw of the grid monitor.
\<close>

definition step :: "DataCenterOptimizer \<Rightarrow> real \<Rightarrow> (error + metrics) \<times> DataCenterOptimizer" where
  "step s u =
     (let si = step_inputs s u;
          grid_state = fst si;
          s1 = snd si
      in case get_system_state s1 of
           Inl e \<Rightarrow> (Inl e, s1)
         | Inr system_state \<Rightarrow>
             (let cc = compute_control (controller s1) system_state grid_state
              in apply_control (s1\<lparr> controller := snd cc \<rparr>) grid_state (fst cc)))"

text \<open>\<open>int(x)\<close> on a float truncates towards zero.\<close>

definition py_int :: "real \<Rightarrow> int" where
  "py_int x = (if x \<ge> 0 then \<lfloor>x\<rfloor> else \<lceil>x\<rceil>)"

text \<open>
  The loop of \<open>run\<close>, from iteration \<open>i\<close> with \<open>k\<close> iterations left; \<open>us i\<close> is the random
  draw of iteration \<open>i\<close>. After each step the progress test \<open>i % (3600 // self.timestep)\<close> is
  evaluated, and a modulus of zero raises.
\<close>

fun run_loop ::
  "DataCenterOptimizer \<Rightarrow> (nat \<Rightarrow> real) \<Rightarrow> nat \<Rightarrow> nat \<Rightarrow> error option \<times> DataCenterOptimizer" where
  "run_loop s us i 0 = (None, s)"
| "run_loop s us i (Suc k) =
     (case step s (us i) of
        (Inl e, s') \<Rightarrow> (Some e, s')
      | (Inr m, s') \<Rightarrow>
          if 3600 div timestep s' = 0 then (Some ZeroDivisionError, s')
          else run_loop s' us (Suc i) k)"

record summary =
  total_energy_kwh :: real
  total_cost_usd :: real
  total_carbon_kg :: real
  avg_pue :: real
  min_pue :: real
  max_pue :: real
  avg_renewable_pct :: real
  avg_flex_workload :: real

record results =
  res_history :: history
  res_summary :: summary
  res_config :: config

text \<open>
  \<open>np.min\<close> and \<open>np.max\<close> raise \<open>ValueError\<close> on an empty list. \<open>np.mean\<close> does not
  raise; on an empty list the source gets \<open>nan\<close>, which \<open>get_results\<close> never returns in a
  summary when the series have one length, since \<open>np.min\<close> then raises.
\<close>

definition np_mean :: "real list \<Rightarrow> real" where
  "np_mean xs = sum_list xs / real (length xs)"

fun np_min :: "real list \<Rightarrow> error + real" where
  "np_min [] = Inl ValueError"
| "np_min (x # xs) = Inr (fold min xs x)"

fun np_max :: "real list \<Rightarrow> error + real" where
  "np_max [] = Inl ValueError"
| "np_max (x # xs) = Inr (fold max xs x)"

definition get_results :: "DataCenterOptimizer \<Rightarrow> error + results" where
  "get_results s =
     (let h = history s;
          total_energy = sum_list (h_total_power_kw h) * (real_of_int (timestep s) / 3600);
          total_cost = sum_list (h_total_cost h);
          total_carbon = sum_list (h_total_carbon h) / 1000;
          avg = np_mean (h_pue h)
      in case np_min (h_pue h) of
           Inl e \<Rightarrow> Inl e
         | Inr mn \<Rightarrow>
             (case np_max (h_pue h) of
                Inl e \<Rightarrow> Inl e
              | Inr mx \<Rightarrow>
                  Inr \<lparr> res_history = h,
                        res_summary =
                          \<lparr> total_energy_kwh = total_energy,
                            total_cost_usd = total_cost,
                            total_carbon_kg = total_carbon,
                            avg_pue = avg,
                            min_pue = mn,
                            max_pue = mx,
                            avg_renewable_pct = np_mean (h_renewable_pct h),
                            avg_flex_workload = np_mean (h_flex_workload h) \<rparr>,
                        res_config = dc_config s \<rparr>))"

text \<open>
  \<open>run(duration_hours)\<close>: the number of steps is a true division by the step size, which
  raises when the step size is zero, truncated by \<open>int\<close>; \<open>range\<close> of a negative number is
  empty.
\<close>

definition run ::
  "DataCenterOptimizer \<Rightarrow> real \<Rightarrow> (nat \<Rightarrow> real) \<Rightarrow> (error + results) \<times> DataCenterOptimizer" where
  "run s duration_hours us =
     (if timestep s = 0 then (Inl ZeroDivisionError, s)
      else
        let num_steps = py_int ((duration_hours * 3600) / real_of_int (timestep s))
        in case run_loop s us 0 (nat num_steps) of
             (Some e, s') \<Rightarrow> (Inl e, s')
           | (None, s') \<Rightarrow> (get_results s', s'))"

text \<open>\<open>create_default_config\<close>, with its two readings of the clock as arguments.\<close>

definition create_default_config :: "int \<Rightarrow> int \<Rightarrow> config" where
  "create_default_config now_grid now_top =
     \<lparr> cfg_it_load = Some
         \<lparr> cfg_base_capacity_kw = Some 500, cfg_flex_capacity_kw = Some 500,
           cfg_num_servers = Some 1000, cfg_server_idle_power_w = Some 100,
           cfg_server_max_power_w = Some 300 \<rparr>,
       cfg_cooling = Some
         \<lparr> cfg_supply_temp_c = Some 18, cfg_outdoor_temp_c = Some 20,
           cfg_chiller_cop = Some 3.5, cfg_free_cooling_threshold_c = Some 15,
           cfg_thermal_mass_btu_f = Some 50000, cfg_target_temp_c = Some 22,
           cfg_fan_pump_overhead = None \<rparr>,
       cfg_grid = Some
         \<lparr> cfg_base_price_per_kwh = Some 0.12, cfg_price_multiplier_peak = Some 2.0,
           cfg_grid_start_time = Some now_grid \<rparr>,
       cfg_controller = Some
         \<lparr> cfg_workload_adjustment_rate = Some (binary64 0.2),
           cfg_renewable_threshold_high = Some (binary64 0.6),
           cfg_renewable_threshold_low = Some (binary64 0.3),
           cfg_stress_threshold_high = Some (binary64 0.7) \<rparr>,
       cfg_timestep_seconds = Some 300,
       cfg_start_time = Some now_top \<rparr>"

section \<open>Notions used by the statements\<close>

text \<open>The orchestrator after one call of \<open>step\<close> per draw, whatever each call's outcome.\<close>

fun steps :: "DataCenterOptimizer \<Rightarrow> real list \<Rightarrow> DataCenterOptimizer" where
  "steps s [] = s"
| "steps s (u # us) = steps (snd (step s u)) us"

definition flex_inv :: "DataCenterOptimizer \<Rightarrow> bool" where
  "flex_inv s \<longleftrightarrow>
     binary64 0.1 \<le> flex_workload (it_load s) \<and> flex_workload (it_load s) \<le> 1"

text \<open>\<open>ys\<close> is \<open>xs\<close> with one entry appended.\<close>

definition one_more :: "'a list \<Rightarrow> 'a list \<Rightarrow> bool" where
  "one_more xs ys \<longleftrightarrow> ys \<noteq> [] \<and> butlast ys = xs"

definition appended :: "history \<Rightarrow> history \<Rightarrow> bool" where
  "appended h h' \<longleftrightarrow>
     one_more (h_time h) (h_time h') \<and>
     one_more (h_it_power_kw h) (h_it_power_kw h') \<and>
     one_more (h_cooling_power_kw h) (h_cooling_power_kw h') \<and>
     one_more (h_total_power_kw h) (h_total_power_kw h') \<and>
     one_more (h_pue h) (h_pue h') \<and>
     one_more (h_base_workload h) (h_base_workload h') \<and>
     one_more (h_flex_workload h) (h_flex_workload h') \<and>
     one_more (h_renewable_pct h) (h_renewable_pct h') \<and>
     one_more (h_grid_stress h) (h_grid_stress h') \<and>
     one_more (h_price_per_kwh h) (h_price_per_kwh h') \<and>
     one_more (h_carbon_intensity h) (h_carbon_intensity h') \<and>
     one_more (h_cooling_mode h) (h_cooling_mode h') \<and>
     one_more (h_total_cost h) (h_total_cost h') \<and>
     one_more (h_total_carbon h) (h_total_carbon h')"

definition series_lengths :: "history \<Rightarrow> nat list" where
  "series_lengths h =
     [length (h_time h), length (h_it_power_kw h), length (h_cooling_power_kw h),
      length (h_total_power_kw h), length (h_pue h), length (h_base_workload h),
      length (h_flex_workload h), length (h_renewable_pct h), length (h_grid_stress h),
      length (h_price_per_kwh h), length (h_carbon_intensity h), length (h_cooling_mode h),
      length (h_total_cost h), length (h_total_carbon h)]"

subsection \<open>Concrete inputs\<close>

text \<open>The default configuration, both clocks at midnight.\<close>

definition default_optimizer :: DataCenterOptimizer where
  "default_optimizer = DataCenterOptimizer_init (create_default_config 0 0) 0 0"

text \<open>The default configuration, both clocks at 05:55:00.\<close>

definition late_optimizer :: DataCenterOptimizer where
  "late_optimizer = DataCenterOptimizer_init (create_default_config 21300 21300) 21300 21300"

text \<open>The default configuration with a step of two hours.\<close>

definition coarse_optimizer :: DataCenterOptimizer where
  "coarse_optimizer =
     DataCenterOptimizer_init ((create_default_config 0 0)\<lparr> cfg_timestep_seconds := Some 7200 \<rparr>) 0 0"

text \<open>
  The default configuration with \<open>workload_adjustment_rate\<close> set to 0.1, both clocks at
  12:00:00, and the snapshot that its first step takes.
\<close>

definition noon_optimizer :: DataCenterOptimizer where
  "noon_optimizer =
     DataCenterOptimizer_init
       ((create_default_config 43200 43200)
          \<lparr> cfg_controller := Some
              \<lparr> cfg_workload_adjustment_rate = Some (binary64 0.1),
                cfg_renewable_threshold_high = Some (binary64 0.6),
                cfg_renewable_threshold_low = Some (binary64 0.3),
                cfg_stress_threshold_high = Some (binary64 0.7) \<rparr> \<rparr>)
       43200 43200"

definition noon_snapshot :: system_state where
  "noon_snapshot = projr (get_system_state (snd (step_inputs noon_optimizer 0)))"

definition zero_capacity_it_config :: it_config where
  "zero_capacity_it_config =
     empty_it_config\<lparr> cfg_base_capacity_kw := Some 0, cfg_flex_capacity_kw := Some 0 \<rparr>"

definition default_cooling :: CoolingModel where
  "default_cooling = CoolingModel_init empty_cooling_config"

text \<open>Two controller outputs that differ in the workload, the suggested mode and the
  setpoint.\<close>

definition control_free :: control where
  "control_free =
     \<lparr> workload_base = 0.7, workload_flex = 0.5,
       control_cooling_params = \<lparr> cp_supply_temp = 20, cp_mode = MODE_FREE \<rparr> \<rparr>"

definition control_mechanical :: control where
  "control_mechanical =
     \<lparr> workload_base = 0.7, workload_flex = 0.1,
       control_cooling_params = \<lparr> cp_supply_temp = 16, cp_mode = MODE_MECHANICAL \<rparr> \<rparr>"

section \<open>Rounding to binary64: bounds and values\<close>

lemma round_half_even_cases:
  "round_half_even q = \<lfloor>q\<rfloor> \<or> round_half_even q = \<lfloor>q\<rfloor> + 1"
  by (simp add: round_half_even_def Let_def)

lemma round_half_even_error: "\<bar>of_int (round_half_even q) - q\<bar> \<le> 1 / 2"
proof -
  have "of_int \<lfloor>q\<rfloor> \<le> q" "q < of_int \<lfloor>q\<rfloor> + 1" by linarith+
  then show ?thesis
    by (auto simp: round_half_even_def Let_def abs_le_iff)
qed

lemma round_half_even_ge: "of_int m \<le> q \<Longrightarrow> m \<le> round_half_even q"
proof -
  assume "of_int m \<le> q"
  then have "m \<le> \<lfloor>q\<rfloor>" by (simp add: le_floor_iff)
  then show ?thesis using round_half_even_cases [of q] by auto
qed

lemma round_half_even_le: "q \<le> of_int m \<Longrightarrow> round_half_even q \<le> m"
proof (cases "q = of_int m")
  case True
  then show ?thesis by (simp add: round_half_even_def)
next
  case False
  assume "q \<le> of_int m"
  with False have "q < of_int m" by simp
  then have "\<lfloor>q\<rfloor> < m" by (simp add: floor_less_iff)
  then show ?thesis using round_half_even_cases [of q] by auto
qed

lemma floor_log2_bounds:
  assumes "x \<noteq> 0"
  shows "2 powr of_int \<lfloor>log 2 \<bar>x\<bar>\<rfloor> \<le> \<bar>x\<bar>" and "\<bar>x\<bar> < 2 powr of_int (\<lfloor>log 2 \<bar>x\<bar>\<rfloor> + 1)"
proof -
  have pos: "0 < \<bar>x\<bar>" using assms by simp
  show "2 powr of_int \<lfloor>log 2 \<bar>x\<bar>\<rfloor> \<le> \<bar>x\<bar>"
    using le_log_iff [of 2 "\<bar>x\<bar>" "of_int \<lfloor>log 2 \<bar>x\<bar>\<rfloor>"] pos by simp
  have "log 2 \<bar>x\<bar> < real_of_int (\<lfloor>log 2 \<bar>x\<bar>\<rfloor> + 1)" by linarith
  then show "\<bar>x\<bar> < 2 powr of_int (\<lfloor>log 2 \<bar>x\<bar>\<rfloor> + 1)"
    using log_less_iff [of 2 "\<bar>x\<bar>" "real_of_int (\<lfloor>log 2 \<bar>x\<bar>\<rfloor> + 1)"] pos by simp
qed

lemma floor_log2_eq:
  assumes "2 powr of_int e \<le> \<bar>x\<bar>" and "\<bar>x\<bar> < 2 powr of_int (e + 1)"
  shows "\<lfloor>log 2 \<bar>x\<bar>\<rfloor> = e"
proof (rule floor_unique)
  have "0 < (2::real) powr of_int e" by simp
  with assms(1) have pos: "0 < \<bar>x\<bar>" by linarith
  show "of_int e \<le> log 2 \<bar>x\<bar>" using assms(1) pos by (simp add: le_log_iff)
  show "log 2 \<bar>x\<bar> < of_int e + 1" using assms(2) pos by (simp add: log_less_iff)
qed

lemma binary64_exponent_bounds:
  assumes "x \<noteq> 0"
  shows "\<bar>x\<bar> < 2 powr of_int (binary64_exponent x + 1)"
    and "- 1022 \<le> \<lfloor>log 2 \<bar>x\<bar>\<rfloor> \<Longrightarrow> 2 powr of_int (binary64_exponent x) \<le> \<bar>x\<bar>"
proof -
  have "\<bar>x\<bar> < 2 powr of_int (\<lfloor>log 2 \<bar>x\<bar>\<rfloor> + 1)" by (rule floor_log2_bounds(2) [OF assms])
  also have "\<dots> \<le> 2 powr of_int (binary64_exponent x + 1)"
    by (simp add: binary64_exponent_def)
  finally show "\<bar>x\<bar> < 2 powr of_int (binary64_exponent x + 1)" .
  assume "- 1022 \<le> \<lfloor>log 2 \<bar>x\<bar>\<rfloor>"
  then have "binary64_exponent x = \<lfloor>log 2 \<bar>x\<bar>\<rfloor>" by (simp add: binary64_exponent_def)
  then show "2 powr of_int (binary64_exponent x) \<le> \<bar>x\<bar>"
    using floor_log2_bounds(1) [OF assms] by simp
qed

lemma binary64_unfold:
  "x \<noteq> 0 \<Longrightarrow>
   binary64 x = of_int (round_half_even (x / 2 powr of_int (binary64_exponent x - 52)))
                  * 2 powr of_int (binary64_exponent x - 52)"
  by (simp add: binary64_def Let_def)

lemma binary64_eval:
  assumes "2 powr of_int e \<le> \<bar>x\<bar>" and "\<bar>x\<bar> < 2 powr of_int (e + 1)" and "- 1022 \<le> e"
  shows "binary64 x = of_int (round_half_even (x / 2 powr of_int (e - 52))) * 2 powr of_int (e - 52)"
proof -
  have "0 < (2::real) powr of_int e" by simp
  with assms(1) have "x \<noteq> 0" by auto
  moreover have "binary64_exponent x = e"
    using floor_log2_eq [OF assms(1,2)] assms(3) by (simp add: binary64_exponent_def)
  ultimately show ?thesis by (simp add: binary64_unfold)
qed

text \<open>The error of one rounding is at most half a unit in the last place.\<close>

lemma binary64_error_ulp:
  assumes "x \<noteq> 0"
  shows "\<bar>binary64 x - x\<bar> \<le> 2 powr of_int (binary64_exponent x - 52) / 2"
proof -
  let ?u = "(2::real) powr of_int (binary64_exponent x - 52)"
  have u: "0 < ?u" by simp
  have "binary64 x - x = (of_int (round_half_even (x / ?u)) - x / ?u) * ?u"
    using u by (simp add: binary64_unfold [OF assms] algebra_simps)
  then have "\<bar>binary64 x - x\<bar> = \<bar>of_int (round_half_even (x / ?u)) - x / ?u\<bar> * ?u"
    using u by (simp add: abs_mult)
  also have "\<dots> \<le> (1 / 2) * ?u"
    by (rule mult_right_mono [OF round_half_even_error]) simp
  finally show ?thesis by simp
qed

lemma binary64_error:
  assumes "\<bar>x\<bar> < 2"
  shows "\<bar>binary64 x - x\<bar> \<le> 1 / 2 ^ 53"
proof (cases "x = 0")
  case True
  then show ?thesis by (simp add: binary64_def)
next
  case False
  have "log 2 \<bar>x\<bar> < 1" using assms False by (simp add: log_less_iff)
  then have "\<lfloor>log 2 \<bar>x\<bar>\<rfloor> \<le> 0" by (simp add: floor_le_iff)
  then have "binary64_exponent x \<le> 0" by (simp add: binary64_exponent_def)
  then have "(2::real) powr of_int (binary64_exponent x - 52) \<le> 2 powr (- 52)"
    by simp
  also have "\<dots> = 1 / 2 ^ 52" by (simp add: powr_neg_numeral)
  finally have "(2::real) powr of_int (binary64_exponent x - 52) / 2 \<le> 1 / 2 ^ 53" by simp
  with binary64_error_ulp [OF False] show ?thesis by linarith
qed

lemma pow2_split53:
  "(2::real) powr real_of_int (e + 1) = 2 ^ 53 * 2 powr real_of_int (e - 52)"
proof -
  have "real_of_int (e + 1) = 53 + real_of_int (e - 52)" by simp
  then have "(2::real) powr real_of_int (e + 1) = 2 powr 53 * 2 powr real_of_int (e - 52)"
    by (simp only: powr_add)
  moreover have "(2::real) powr 53 = 2 ^ 53" by simp
  ultimately show ?thesis by (simp only:)
qed

lemma pow2_split52:
  "(2::real) powr real_of_int e = 2 ^ 52 * 2 powr real_of_int (e - 52)"
proof -
  have "real_of_int e = 52 + real_of_int (e - 52)" by simp
  then have "(2::real) powr real_of_int e = 2 powr 52 * 2 powr real_of_int (e - 52)"
    by (simp only: powr_add)
  moreover have "(2::real) powr 52 = 2 ^ 52" by simp
  ultimately show ?thesis by (simp only:)
qed

lemma binary64_upper:
  assumes "0 < x"
  shows "binary64 x \<le> 2 powr of_int (binary64_exponent x + 1)"
proof -
  let ?e = "binary64_exponent x"
  let ?u = "(2::real) powr of_int (?e - 52)"
  have x0: "x \<noteq> 0" using assms by simp
  have u: "0 < ?u" by simp
  have "\<bar>x\<bar> < 2 ^ 53 * ?u"
    using binary64_exponent_bounds(1) [OF x0] by (simp only: pow2_split53)
  then have "x < 2 ^ 53 * ?u" using assms by linarith
  then have "x / ?u < 2 ^ 53" using u by (simp only: pos_divide_less_eq)
  then have "x / ?u \<le> of_int (2 ^ 53)" by simp
  then have "round_half_even (x / ?u) \<le> 2 ^ 53" by (rule round_half_even_le)
  then have "real_of_int (round_half_even (x / ?u)) \<le> real_of_int (2 ^ 53)"
    by (simp only: of_int_le_iff)
  then have "real_of_int (round_half_even (x / ?u)) \<le> 2 ^ 53" by simp
  then have "real_of_int (round_half_even (x / ?u)) * ?u \<le> 2 ^ 53 * ?u"
    using u by (intro mult_right_mono) simp_all
  then show ?thesis by (simp only: binary64_unfold [OF x0] pow2_split53)
qed

lemma binary64_lower:
  assumes "0 < x" and "- 1022 \<le> \<lfloor>log 2 \<bar>x\<bar>\<rfloor>"
  shows "2 powr of_int (binary64_exponent x) \<le> binary64 x"
proof -
  let ?e = "binary64_exponent x"
  let ?u = "(2::real) powr of_int (?e - 52)"
  have x0: "x \<noteq> 0" using assms by simp
  have u: "0 < ?u" by simp
  have "2 powr of_int ?e \<le> \<bar>x\<bar>" by (rule binary64_exponent_bounds(2) [OF x0 assms(2)])
  then have "2 ^ 52 * ?u \<le> \<bar>x\<bar>" by (simp only: pow2_split52 [symmetric])
  then have "2 ^ 52 * ?u \<le> x" using assms(1) by linarith
  then have "2 ^ 52 \<le> x / ?u" using u by (simp only: pos_le_divide_eq)
  then have "of_int (2 ^ 52) \<le> x / ?u" by simp
  then have "2 ^ 52 \<le> round_half_even (x / ?u)" by (rule round_half_even_ge)
  then have "real_of_int (2 ^ 52) \<le> real_of_int (round_half_even (x / ?u))"
    by (simp only: of_int_le_iff)
  then have "2 ^ 52 \<le> real_of_int (round_half_even (x / ?u))" by simp
  then have "2 ^ 52 * ?u \<le> real_of_int (round_half_even (x / ?u)) * ?u"
    using u by (intro mult_right_mono) simp_all
  then show ?thesis by (simp only: binary64_unfold [OF x0] pow2_split52 [symmetric])
qed

lemma binary64_nonpos:
  assumes "x \<le> 0"
  shows "binary64 x \<le> 0"
proof (cases "x = 0")
  case True
  then show ?thesis by (simp add: binary64_def)
next
  case False
  let ?u = "(2::real) powr of_int (binary64_exponent x - 52)"
  have u: "0 < ?u" by simp
  have "x / ?u \<le> of_int 0" using assms u by (simp add: divide_le_0_iff)
  then have "round_half_even (x / ?u) \<le> 0" by (rule round_half_even_le)
  then have "real_of_int (round_half_even (x / ?u)) * ?u \<le> 0"
    using u by (simp add: mult_le_0_iff)
  then show ?thesis by (simp add: binary64_unfold [OF False])
qed

lemma binary64_nonneg:
  assumes "0 \<le> x"
  shows "0 \<le> binary64 x"
proof (cases "x = 0")
  case True
  then show ?thesis by (simp add: binary64_def)
next
  case False
  let ?u = "(2::real) powr of_int (binary64_exponent x - 52)"
  have u: "0 < ?u" by simp
  have "of_int 0 \<le> x / ?u" using assms u by simp
  then have "0 \<le> round_half_even (x / ?u)" by (rule round_half_even_ge)
  then have "0 \<le> real_of_int (round_half_even (x / ?u)) * ?u"
    using u by simp
  then show ?thesis by (simp add: binary64_unfold [OF False])
qed

lemma binary64_one: "binary64 1 = 1"
proof -
  have "binary64 1 = of_int (round_half_even (1 / 2 powr of_int (0 - 52))) * 2 powr of_int (0 - 52)"
    by (rule binary64_eval) simp_all
  also have "\<dots> = 1"
    by (simp add: powr_neg_numeral round_half_even_def)
  finally show ?thesis .
qed

lemma binary64_two: "binary64 2 = 2"
proof -
  have "binary64 2 = of_int (round_half_even (2 / 2 powr of_int (1 - 52))) * 2 powr of_int (1 - 52)"
    by (rule binary64_eval) simp_all
  also have "\<dots> = 2"
    by (simp add: powr_neg_numeral round_half_even_def)
  finally show ?thesis .
qed

lemma binary64_le_one:
  assumes "x \<le> 1"
  shows "binary64 x \<le> 1"
proof -
  consider "x \<le> 0" | "x = 1" | "0 < x" "x < 1" using assms by linarith
  then show ?thesis
  proof cases
    case 1
    then show ?thesis using binary64_nonpos [of x] by simp
  next
    case 2
    then show ?thesis by (simp add: binary64_one)
  next
    case 3
    have "log 2 \<bar>x\<bar> < 0" using 3 by simp
    then have "\<lfloor>log 2 \<bar>x\<bar>\<rfloor> \<le> - 1" by (simp add: floor_le_iff)
    then have "binary64_exponent x + 1 \<le> 0" by (simp add: binary64_exponent_def)
    then have "(2::real) powr of_int (binary64_exponent x + 1) \<le> 2 powr 0"
      by (subst powr_le_cancel_iff) simp_all
    then show ?thesis using binary64_upper [OF 3(1)] by simp
  qed
qed

lemma binary64_tenth: "binary64 0.1 = 7205759403792794 / 2 ^ 56"
proof -
  have "binary64 0.1
      = of_int (round_half_even (0.1 / 2 powr of_int (- 4 - 52))) * 2 powr of_int (- 4 - 52)"
    by (rule binary64_eval) (simp_all add: powr_neg_numeral)
  also have "\<dots> = 7205759403792794 / 2 ^ 56"
    by (simp add: powr_neg_numeral round_half_even_def)
  finally show ?thesis .
qed

lemma binary64_ge_tenth:
  assumes "binary64 0.1 \<le> x"
  shows "binary64 0.1 \<le> binary64 x"
proof -
  have c: "(7205759403792794 / 2 ^ 56 :: real) \<le> x" using assms by (simp only: binary64_tenth)
  then have pos: "0 < x" by simp
  have "2 powr real_of_int (- 4) \<le> \<bar>x\<bar>" using c by (simp add: powr_neg_numeral)
  then have "real_of_int (- 4) \<le> log 2 \<bar>x\<bar>" using pos by (simp add: le_log_iff)
  then have L: "- 4 \<le> \<lfloor>log 2 \<bar>x\<bar>\<rfloor>" by (simp only: le_floor_iff)
  then have e: "binary64_exponent x = \<lfloor>log 2 \<bar>x\<bar>\<rfloor>" by (simp add: binary64_exponent_def)
  have x0: "x \<noteq> 0" using pos by simp
  show ?thesis
  proof (cases "\<lfloor>log 2 \<bar>x\<bar>\<rfloor> = - 4")
    case True
    then have e4: "binary64_exponent x = - 4" using e by simp
    have u: "(2::real) powr real_of_int (- 4 - 52) = 1 / 2 ^ 56" by (simp add: powr_neg_numeral)
    have "real_of_int 7205759403792794 \<le> x / (1 / 2 ^ 56)" using c by simp
    then have "7205759403792794 \<le> round_half_even (x / (1 / 2 ^ 56))"
      by (rule round_half_even_ge)
    then have "real_of_int 7205759403792794 \<le> real_of_int (round_half_even (x / (1 / 2 ^ 56)))"
      by (simp only: of_int_le_iff)
    then have "7205759403792794 / 2 ^ 56
                 \<le> real_of_int (round_half_even (x / (1 / 2 ^ 56))) * (1 / 2 ^ 56)"
      by simp
    then show ?thesis by (simp only: binary64_unfold [OF x0] e4 u binary64_tenth)
  next
    case False
    with L e have "- 3 \<le> binary64_exponent x" by linarith
    then have "(2::real) powr real_of_int (- 3) \<le> 2 powr real_of_int (binary64_exponent x)"
      by (subst powr_le_cancel_iff) simp_all
    moreover have "2 powr real_of_int (binary64_exponent x) \<le> binary64 x"
      using binary64_lower [OF pos] L by simp
    moreover have "(7205759403792794 / 2 ^ 56 :: real) \<le> 2 powr real_of_int (- 3)"
      by (simp add: powr_neg_numeral)
    ultimately show ?thesis by (simp only: binary64_tenth)
  qed
qed

lemma binary64_error_le2:
  assumes "- 2 < x" and "x \<le> 2"
  shows "\<bar>binary64 x - x\<bar> \<le> 1 / 2 ^ 53"
proof (cases "x = 2")
  case True
  then show ?thesis by (simp add: binary64_two)
next
  case False
  with assms have "\<bar>x\<bar> < 2" by simp
  then show ?thesis by (rule binary64_error)
qed

lemma binary64_three_tenths: "binary64 0.3 = 5404319552844595 / 2 ^ 54"
proof -
  have "binary64 0.3
      = of_int (round_half_even (0.3 / 2 powr of_int (- 2 - 52))) * 2 powr of_int (- 2 - 52)"
    by (rule binary64_eval) (simp_all add: powr_neg_numeral)
  also have "\<dots> = 5404319552844595 / 2 ^ 54"
    by (simp add: powr_neg_numeral round_half_even_def)
  finally show ?thesis .
qed

lemma binary64_sum_three_one:
  "binary64 (binary64 0.3 + binary64 0.1) = 7205759403792794 / 2 ^ 54"
proof -
  have s: "binary64 0.3 + binary64 0.1 = (14411518807585587 / 2 ^ 55 :: real)"
    by (simp add: binary64_tenth binary64_three_tenths)
  have "binary64 (14411518807585587 / 2 ^ 55)
      = of_int (round_half_even ((14411518807585587 / 2 ^ 55) / 2 powr of_int (- 2 - 52)))
          * 2 powr of_int (- 2 - 52)"
    by (rule binary64_eval) (simp_all add: powr_neg_numeral)
  also have "\<dots> = 7205759403792794 / 2 ^ 54"
    by (simp add: powr_neg_numeral round_half_even_def)
  finally show ?thesis by (simp only: s)
qed

lemma binary64_excess:
  "binary64 0.1 < binary64 (binary64 0.3 + binary64 0.1) - binary64 0.3"
proof -
  have "binary64 (binary64 0.3 + binary64 0.1) - binary64 0.3
          = (7205759403792794 / 2 ^ 54 - 5404319552844595 / 2 ^ 54 :: real)"
    by (subst binary64_sum_three_one, subst binary64_three_tenths) (rule refl)
  moreover have "(7205759403792794 / 2 ^ 56 :: real)
                   < 7205759403792794 / 2 ^ 54 - 5404319552844595 / 2 ^ 54"
    by simp
  ultimately show ?thesis by (simp only: binary64_tenth)
qed

section \<open>IT load model: the unguarded division\<close>

lemma compute_power_Inr:
  "total_capacity_kw m \<noteq> 0 \<Longrightarrow> \<exists>p. compute_power m = Inr p"
  by (cases "compute_power m") (auto simp: compute_power_def Let_def split: if_splits)

lemma compute_power_Inl:
  "total_capacity_kw m = 0 \<Longrightarrow> compute_power m = Inl ZeroDivisionError"
  by (simp add: compute_power_def)

lemma total_capacity_set_workload_init:
  "total_capacity_kw (set_workload (ITLoadModel_init cfg) b f)
     = base_capacity_kw (ITLoadModel_init cfg) + flex_capacity_kw (ITLoadModel_init cfg)"
  by (simp add: set_workload_def ITLoadModel_init_def)

text \<open>
  Claim C10. \<open>compute_power\<close> divides by \<open>total_capacity_kw\<close>, the sum of the two configured
  capacities, with no guard. When the configured capacities sum to a strictly positive
  value the division cannot fault and \<open>compute_power\<close> returns a power, whatever the
  workload set; when both capacities are zero it raises \<open>ZeroDivisionError\<close>.
\<close>

theorem compute_power_total:
  "(0 < base_capacity_kw (ITLoadModel_init cfg) + flex_capacity_kw (ITLoadModel_init cfg) \<longrightarrow>
      (\<exists>p. compute_power (set_workload (ITLoadModel_init cfg) b f) = Inr p)) \<and>
   (base_capacity_kw (ITLoadModel_init cfg) = 0 \<and> flex_capacity_kw (ITLoadModel_init cfg) = 0 \<longrightarrow>
      compute_power (set_workload (ITLoadModel_init cfg) b f) = Inl ZeroDivisionError)"
proof (intro conjI impI)
  assume "0 < base_capacity_kw (ITLoadModel_init cfg) + flex_capacity_kw (ITLoadModel_init cfg)"
  then have "total_capacity_kw (set_workload (ITLoadModel_init cfg) b f) \<noteq> 0"
    by (simp add: total_capacity_set_workload_init)
  then show "\<exists>p. compute_power (set_workload (ITLoadModel_init cfg) b f) = Inr p"
    by (rule compute_power_Inr)
next
  assume "base_capacity_kw (ITLoadModel_init cfg) = 0 \<and> flex_capacity_kw (ITLoadModel_init cfg) = 0"
  then have "total_capacity_kw (set_workload (ITLoadModel_init cfg) b f) = 0"
    by (simp add: total_capacity_set_workload_init)
  then show "compute_power (set_workload (ITLoadModel_init cfg) b f) = Inl ZeroDivisionError"
    by (rule compute_power_Inl)
qed

text \<open>The default capacities (500 and 500) and the capacities 0 and 0.\<close>

theorem compute_power_total_witness:
  "0 < base_capacity_kw (ITLoadModel_init empty_it_config)
         + flex_capacity_kw (ITLoadModel_init empty_it_config) \<and>
   (\<exists>p. compute_power (set_workload (ITLoadModel_init empty_it_config) 0.7 0.5) = Inr p) \<and>
   base_capacity_kw (ITLoadModel_init zero_capacity_it_config) = 0 \<and>
   flex_capacity_kw (ITLoadModel_init zero_capacity_it_config) = 0 \<and>
   compute_power (set_workload (ITLoadModel_init zero_capacity_it_config) 0.7 0.5)
     = Inl ZeroDivisionError"
  using compute_power_total [of empty_it_config "0.7" "0.5"]
    compute_power_total [of zero_capacity_it_config "0.7" "0.5"]
  by (simp add: ITLoadModel_init_def empty_it_config_def zero_capacity_it_config_def get_or_def)

lemma ITLoadModel_update_cases:
  "ITLoadModel_update m dt =
     (if total_capacity_kw m = 0 then Inl ZeroDivisionError
      else Inr (compute_heat (projr (compute_power m)),
                m\<lparr> current_power_kw := projr (compute_power m),
                   current_heat_btu_hr := compute_heat (projr (compute_power m)) \<rparr>))"
  by (simp add: ITLoadModel_update_def compute_power_def Let_def)

section \<open>Cooling model: efficiency, free-cooling ratio, mode\<close>

text \<open>
  Claim C4. \<open>compute_pue\<close> returns exactly 1 whenever the IT power is at most zero; for a
  positive IT power it returns \<open>(itPower + coolingPower + 0.05 * itPower) / itPower\<close>, which
  is at least 1 for every non-negative cooling power.
\<close>

theorem compute_pue_spec:
  "(it_power_kw \<le> 0 \<longrightarrow> compute_pue it_power_kw cooling_power_kw = 1) \<and>
   (it_power_kw > 0 \<longrightarrow>
      compute_pue it_power_kw cooling_power_kw
        = (it_power_kw + cooling_power_kw + 0.05 * it_power_kw) / it_power_kw \<and>
      (cooling_power_kw \<ge> 0 \<longrightarrow> compute_pue it_power_kw cooling_power_kw \<ge> 1))"
proof (cases "it_power_kw \<le> 0")
  case True
  then show ?thesis by (simp add: compute_pue_def)
next
  case False
  then have pos: "0 < it_power_kw" by simp
  have eq: "compute_pue it_power_kw cooling_power_kw
        = (it_power_kw + cooling_power_kw + 0.05 * it_power_kw) / it_power_kw"
    using pos by (simp add: compute_pue_def Let_def mult.commute)
  have "cooling_power_kw \<ge> 0 \<Longrightarrow>
        1 \<le> (it_power_kw + cooling_power_kw + 0.05 * it_power_kw) / it_power_kw"
    using pos by (simp add: le_divide_eq)
  with eq pos show ?thesis by simp
qed

theorem compute_pue_spec_witness:
  "compute_pue 0 7 = 1 \<and> compute_pue (-3) 7 = 1 \<and>
   compute_pue 100 20 = (100 + 20 + 0.05 * 100) / 100 \<and>
   compute_pue 100 20 \<ge> 1 \<and> compute_pue 100 20 = 1.25"
  using compute_pue_spec [of 0 7] compute_pue_spec [of "-3" 7] compute_pue_spec [of 100 20]
  by simp

lemma ratio_at:
  "compute_free_cooling_ratio (set_outdoor_temp c t) =
     (if t \<le> free_cooling_threshold c then 1
      else if t \<ge> target_temp c then 0
      else 1 - (t - free_cooling_threshold c) / (target_temp c - free_cooling_threshold c))"
  by (simp add: compute_free_cooling_ratio_def set_outdoor_temp_def)

lemma ratio_bounds:
  "0 \<le> compute_free_cooling_ratio c \<and> compute_free_cooling_ratio c \<le> 1"
proof -
  let ?t = "outdoor_temp c" and ?a = "free_cooling_threshold c" and ?b = "target_temp c"
  show ?thesis
  proof (cases "?t \<le> ?a \<or> ?t \<ge> ?b")
    case True
    then show ?thesis by (auto simp: compute_free_cooling_ratio_def)
  next
    case False
    then have d: "0 < ?b - ?a" and n0: "0 \<le> ?t - ?a" and n1: "?t - ?a \<le> ?b - ?a"
      by simp_all
    have "0 \<le> (?t - ?a) / (?b - ?a)" using d n0 by simp
    moreover have "(?t - ?a) / (?b - ?a) \<le> 1" using d n1 by (simp add: divide_le_eq)
    ultimately show ?thesis using False by (simp add: compute_free_cooling_ratio_def)
  qed
qed

lemma ratio_mono:
  assumes "t \<le> t'"
  shows "compute_free_cooling_ratio (set_outdoor_temp c t')
           \<le> compute_free_cooling_ratio (set_outdoor_temp c t)"
proof -
  let ?a = "free_cooling_threshold c" and ?b = "target_temp c"
  consider "t \<le> ?a" | "?a < t" "?b \<le> t'" | "?a < t" "t' < ?b" by linarith
  then show ?thesis
  proof cases
    case 1
    then have "compute_free_cooling_ratio (set_outdoor_temp c t) = 1" by (simp add: ratio_at)
    then show ?thesis using ratio_bounds [of "set_outdoor_temp c t'"] by simp
  next
    case 2
    with assms have "compute_free_cooling_ratio (set_outdoor_temp c t') = 0"
      by (simp add: ratio_at)
    then show ?thesis using ratio_bounds [of "set_outdoor_temp c t"] by simp
  next
    case 3
    with assms have d: "0 < ?b - ?a" and le: "t - ?a \<le> t' - ?a" by simp_all
    have "(t - ?a) / (?b - ?a) \<le> (t' - ?a) / (?b - ?a)"
      using d le by (simp add: divide_right_mono)
    then show ?thesis using 3 assms by (simp add: ratio_at)
  qed
qed

text \<open>
  Claim C5. With the free-cooling threshold below the target temperature: for every
  outdoor temperature at most the threshold \<open>compute_free_cooling_ratio\<close> returns 1; for
  every outdoor temperature at least the target it returns 0; strictly between the two it
  returns the linear interpolation \<open>1 - (outdoor - threshold) / (target - threshold)\<close>; and
  the ratio is monotonically non-increasing in the outdoor temperature.
\<close>

theorem compute_free_cooling_ratio_spec:
  assumes "free_cooling_threshold c < target_temp c"
  shows "(outdoor_temp c \<le> free_cooling_threshold c \<longrightarrow> compute_free_cooling_ratio c = 1) \<and>
   (outdoor_temp c \<ge> target_temp c \<longrightarrow> compute_free_cooling_ratio c = 0) \<and>
   (free_cooling_threshold c < outdoor_temp c \<and> outdoor_temp c < target_temp c \<longrightarrow>
      compute_free_cooling_ratio c
        = 1 - (outdoor_temp c - free_cooling_threshold c)
                / (target_temp c - free_cooling_threshold c)) \<and>
   (\<forall>t t'. t \<le> t' \<longrightarrow>
      compute_free_cooling_ratio (set_outdoor_temp c t')
        \<le> compute_free_cooling_ratio (set_outdoor_temp c t))"
  using assms ratio_mono [of _ _ c] by (simp add: compute_free_cooling_ratio_def)

text \<open>The default thresholds (15 and 22) at the outdoor temperatures 10, 30 and 18.5.\<close>

theorem compute_free_cooling_ratio_spec_witness:
  "free_cooling_threshold default_cooling < target_temp default_cooling \<and>
   outdoor_temp (set_outdoor_temp default_cooling 10)
     \<le> free_cooling_threshold (set_outdoor_temp default_cooling 10) \<and>
   compute_free_cooling_ratio (set_outdoor_temp default_cooling 10) = 1 \<and>
   outdoor_temp (set_outdoor_temp default_cooling 30)
     \<ge> target_temp (set_outdoor_temp default_cooling 30) \<and>
   compute_free_cooling_ratio (set_outdoor_temp default_cooling 30) = 0 \<and>
   free_cooling_threshold (set_outdoor_temp default_cooling 18.5)
     < outdoor_temp (set_outdoor_temp default_cooling 18.5) \<and>
   outdoor_temp (set_outdoor_temp default_cooling 18.5)
     < target_temp (set_outdoor_temp default_cooling 18.5) \<and>
   compute_free_cooling_ratio (set_outdoor_temp default_cooling 18.5)
     = 1 - (18.5 - 15) / (22 - 15) \<and>
   compute_free_cooling_ratio (set_outdoor_temp default_cooling 18.5) = 1 / 2 \<and>
   (10::real) \<le> 18.5 \<and>
   compute_free_cooling_ratio (set_outdoor_temp default_cooling 18.5)
     \<le> compute_free_cooling_ratio (set_outdoor_temp default_cooling 10)"
proof -
  have t: "free_cooling_threshold (set_outdoor_temp default_cooling x)
             < target_temp (set_outdoor_temp default_cooling x)" for x
    by (simp add: set_outdoor_temp_def default_cooling_def CoolingModel_init_def
        empty_cooling_config_def get_or_def)
  show ?thesis
    using compute_free_cooling_ratio_spec [OF t [of 10]]
      compute_free_cooling_ratio_spec [OF t [of 30]]
      compute_free_cooling_ratio_spec [OF t [of "18.5"]]
    by (simp add: set_outdoor_temp_def default_cooling_def CoolingModel_init_def
        empty_cooling_config_def get_or_def compute_free_cooling_ratio_def)
qed

text \<open>
  Claim C6. For every outdoor temperature and threshold configuration,
  \<open>determine_cooling_mode\<close> returns free if and only if the free-cooling ratio is at least
  0.95, mechanical if and only if the ratio is at most 0.10, and hybrid in all other cases.
\<close>

theorem determine_cooling_mode_iff:
  "(determine_cooling_mode c = MODE_FREE \<longleftrightarrow> compute_free_cooling_ratio c \<ge> 0.95) \<and>
   (determine_cooling_mode c = MODE_MECHANICAL \<longleftrightarrow> compute_free_cooling_ratio c \<le> 0.10) \<and>
   (determine_cooling_mode c = MODE_HYBRID \<longleftrightarrow>
      \<not> compute_free_cooling_ratio c \<ge> 0.95 \<and> \<not> compute_free_cooling_ratio c \<le> 0.10)"
  by (simp add: determine_cooling_mode_def Let_def)

section \<open>One step of the orchestrator\<close>

lemma one_more_snoc [simp]: "one_more xs (xs @ [a])"
  by (simp add: one_more_def)

lemma one_more_length: "one_more xs ys \<Longrightarrow> length ys = Suc (length xs)"
  by (auto simp: one_more_def)

lemma appended_series_lengths:
  "appended h h' \<Longrightarrow> series_lengths h' = map Suc (series_lengths h)"
  by (simp add: appended_def series_lengths_def one_more_length)

lemma step_inputs_fields:
  "it_load (snd (step_inputs s u)) = it_load s"
  "controller (snd (step_inputs s u)) = controller s"
  "timestep (snd (step_inputs s u)) = timestep s"
  "current_time (snd (step_inputs s u)) = current_time s"
  "history (snd (step_inputs s u)) = history s"
  "dc_config (snd (step_inputs s u)) = dc_config s"
  "cooling (snd (step_inputs s u))
     = set_outdoor_temp (cooling s) (15 + 10 * sin ((real (hour_of (current_time s)) - 6) * pi / 12))"
  "current_state (grid (snd (step_inputs s u))) = Some (fst (step_inputs s u))"
  "gs_outdoor_temp_c (fst (step_inputs s u))
     = Some (15 + 10 * sin ((real (hour_of (current_time s)) - 6) * pi / 12))"
  "gs_hour (fst (step_inputs s u)) = hour_of (grid_current_time (grid s) + timestep s)"
  by (simp_all add: step_inputs_def Let_def GridSignalMonitor_update_def get_current_state_def)

lemma CoolingModel_update_fields:
  "current_mode (snd (CoolingModel_update c dt h)) = determine_cooling_mode c"
  "outdoor_temp (snd (CoolingModel_update c dt h)) = outdoor_temp c"
  "free_cooling_threshold (snd (CoolingModel_update c dt h)) = free_cooling_threshold c"
  "target_temp (snd (CoolingModel_update c dt h)) = target_temp c"
  by (simp_all add: CoolingModel_update_def Let_def update_thermal_state_def)

lemma compute_current_pue_fields:
  "current_mode (snd (compute_current_pue c p)) = current_mode c"
  "outdoor_temp (snd (compute_current_pue c p)) = outdoor_temp c"
  "free_cooling_threshold (snd (compute_current_pue c p)) = free_cooling_threshold c"
  "target_temp (snd (compute_current_pue c p)) = target_temp c"
  by (simp_all add: compute_current_pue_def Let_def)

lemma determine_cooling_mode_cong:
  "outdoor_temp c = outdoor_temp c' \<Longrightarrow> free_cooling_threshold c = free_cooling_threshold c' \<Longrightarrow>
   target_temp c = target_temp c' \<Longrightarrow> determine_cooling_mode c = determine_cooling_mode c'"
  by (simp add: determine_cooling_mode_def compute_free_cooling_ratio_def)

lemma determine_cooling_mode_set_supply_temp:
  "determine_cooling_mode (set_supply_temp c t) = determine_cooling_mode c"
  by (rule determine_cooling_mode_cong) (simp_all add: set_supply_temp_def)

lemma apply_control_ok:
  assumes "total_capacity_kw (it_load s) \<noteq> 0"
  shows "\<exists>m. fst (apply_control s gs ctl) = Inr m"
    and "appended (history s) (history (snd (apply_control s gs ctl)))"
    and "current_time (snd (apply_control s gs ctl)) = current_time s + timestep s"
    and "current_mode (cooling (snd (apply_control s gs ctl)))
           = determine_cooling_mode (cooling s)"
    and "last (h_cooling_mode (history (snd (apply_control s gs ctl))))
           = determine_cooling_mode (cooling s)"
  using assms
  by (simp_all add: apply_control_def Let_def ITLoadModel_update_cases set_workload_def
      appended_def CoolingModel_update_fields compute_current_pue_fields
      determine_cooling_mode_set_supply_temp)

lemma apply_control_fields:
  "timestep (snd (apply_control s gs ctl)) = timestep s"
  "controller (snd (apply_control s gs ctl)) = controller s"
  "grid (snd (apply_control s gs ctl)) = grid s"
  "dc_config (snd (apply_control s gs ctl)) = dc_config s"
  "total_capacity_kw (it_load (snd (apply_control s gs ctl))) = total_capacity_kw (it_load s)"
  "flex_workload (it_load (snd (apply_control s gs ctl))) = np_clip (workload_flex ctl) 0 1"
  "outdoor_temp (cooling (snd (apply_control s gs ctl))) = outdoor_temp (cooling s)"
  "free_cooling_threshold (cooling (snd (apply_control s gs ctl)))
     = free_cooling_threshold (cooling s)"
  "target_temp (cooling (snd (apply_control s gs ctl))) = target_temp (cooling s)"
  by (simp_all add: apply_control_def Let_def ITLoadModel_update_cases set_workload_def
      CoolingModel_update_fields compute_current_pue_fields set_supply_temp_def)

lemma get_system_state_Inl:
  "total_capacity_kw (it_load s) = 0 \<Longrightarrow> get_system_state s = Inl ZeroDivisionError"
  by (simp add: get_system_state_def ITLoadModel_get_state_def)

lemma get_system_state_Inr:
  "total_capacity_kw (it_load s) \<noteq> 0 \<Longrightarrow>
   \<exists>sys. get_system_state s = Inr sys \<and>
         st_flex_workload (ss_it_load sys) = flex_workload (it_load s)"
  by (simp add: get_system_state_def ITLoadModel_get_state_def)

lemma get_system_state_flex:
  "get_system_state s = Inr sys \<Longrightarrow>
   st_flex_workload (ss_it_load sys) = flex_workload (it_load s) \<and>
   total_capacity_kw (it_load s) \<noteq> 0"
  by (auto simp: get_system_state_def ITLoadModel_get_state_def split: if_splits)

lemma compute_control_fields:
  "adjustment_rate (snd (compute_control k sys gs)) = adjustment_rate k"
  "renewable_threshold_high (snd (compute_control k sys gs)) = renewable_threshold_high k"
  "renewable_threshold_low (snd (compute_control k sys gs)) = renewable_threshold_low k"
  "stress_threshold_high (snd (compute_control k sys gs)) = stress_threshold_high k"
  by (simp_all add: compute_control_def Let_def)

text \<open>A zero total capacity makes every step raise at the snapshot, before any record.\<close>

lemma step_fail:
  "total_capacity_kw (it_load s) = 0 \<Longrightarrow>
   step s u = (Inl ZeroDivisionError, snd (step_inputs s u))"
  by (simp add: step_def Let_def get_system_state_Inl step_inputs_fields)

lemma step_unfold_ok:
  assumes "get_system_state (snd (step_inputs s u)) = Inr sys"
  shows "step s u =
     apply_control
       ((snd (step_inputs s u))
          \<lparr> controller := snd (compute_control (controller s) sys (fst (step_inputs s u))) \<rparr>)
       (fst (step_inputs s u))
       (fst (compute_control (controller s) sys (fst (step_inputs s u))))"
  using assms by (simp add: step_def Let_def step_inputs_fields)

text \<open>
  With a non-zero total capacity a step returns its metrics, appends exactly one entry to
  every series of the history, leaving the earlier entries as they were, and advances the
  clock by the step size.
\<close>

lemma step_ok:
  assumes "total_capacity_kw (it_load s) \<noteq> 0"
  shows "\<exists>m. fst (step s u) = Inr m"
    and "appended (history s) (history (snd (step s u)))"
    and "current_time (snd (step s u)) = current_time s + timestep s"
proof -
  from assms have "total_capacity_kw (it_load (snd (step_inputs s u))) \<noteq> 0"
    by (simp add: step_inputs_fields)
  then obtain sys where sys: "get_system_state (snd (step_inputs s u)) = Inr sys"
    using get_system_state_Inr by blast
  note eq = step_unfold_ok [OF sys]
  let ?s1 = "(snd (step_inputs s u))
          \<lparr> controller := snd (compute_control (controller s) sys (fst (step_inputs s u))) \<rparr>"
  have t: "total_capacity_kw (it_load ?s1) \<noteq> 0" using assms by (simp add: step_inputs_fields)
  show "\<exists>m. fst (step s u) = Inr m" unfolding eq by (rule apply_control_ok(1) [OF t])
  show "appended (history s) (history (snd (step s u)))"
    unfolding eq using apply_control_ok(2) [OF t] by (simp add: step_inputs_fields)
  show "current_time (snd (step s u)) = current_time s + timestep s"
    unfolding eq using apply_control_ok(3) [OF t] by (simp add: step_inputs_fields)
qed

lemma step_Inr:
  assumes "total_capacity_kw (it_load s) \<noteq> 0"
  obtains m where "step s u = (Inr m, snd (step s u))"
proof -
  from step_ok(1) [OF assms] obtain m where "fst (step s u) = Inr m" by blast
  then have "step s u = (Inr m, snd (step s u))" by (simp add: prod_eq_iff)
  then show thesis by (rule that)
qed

lemma step_fields:
  "timestep (snd (step s u)) = timestep s"
  "dc_config (snd (step s u)) = dc_config s"
  "total_capacity_kw (it_load (snd (step s u))) = total_capacity_kw (it_load s)"
  "adjustment_rate (controller (snd (step s u))) = adjustment_rate (controller s)"
  "free_cooling_threshold (cooling (snd (step s u))) = free_cooling_threshold (cooling s)"
  "target_temp (cooling (snd (step s u))) = target_temp (cooling s)"
  "outdoor_temp (cooling (snd (step s u)))
     = 15 + 10 * sin ((real (hour_of (current_time s)) - 6) * pi / 12)"
  "current_state (grid (snd (step s u))) = Some (fst (step_inputs s u))"
  by (cases "get_system_state (snd (step_inputs s u))";
      simp add: step_def Let_def step_inputs_fields apply_control_fields compute_control_fields
        set_outdoor_temp_def)+

lemma default_optimizer_fields:
  "total_capacity_kw (it_load default_optimizer) = 1000"
  "adjustment_rate (controller default_optimizer) = binary64 0.2"
  "timestep default_optimizer = 300"
  "current_time default_optimizer = 0"
  "history default_optimizer = empty_history"
  by (simp_all add: default_optimizer_def DataCenterOptimizer_init_def create_default_config_def
      get_or_def ITLoadModel_init_def SimpleController_init_def)

lemma late_optimizer_fields:
  "current_time late_optimizer = 21300"
  "grid_current_time (grid late_optimizer) = 21300"
  "timestep late_optimizer = 300"
  by (simp_all add: late_optimizer_def DataCenterOptimizer_init_def create_default_config_def
      get_or_def GridSignalMonitor_init_def)

lemma coarse_optimizer_fields:
  "total_capacity_kw (it_load coarse_optimizer) = 1000"
  "timestep coarse_optimizer = 7200"
  "history coarse_optimizer = empty_history"
  by (simp_all add: coarse_optimizer_def DataCenterOptimizer_init_def create_default_config_def
      get_or_def ITLoadModel_init_def)

lemma hour_of_values: "hour_of 21300 = 5" "hour_of 21600 = 6" "hour_of 0 = 0"
  by (simp_all add: hour_of_def)

section \<open>Controller: the flexible workload target\<close>

lemma np_clip_id: "lo \<le> x \<Longrightarrow> x \<le> hi \<Longrightarrow> np_clip x lo hi = x"
  by (simp add: np_clip_def)

lemma binary64_tenth_range: "0 \<le> binary64 0.1" "binary64 0.1 \<le> 1"
  by (rule binary64_nonneg, simp) (rule binary64_le_one, simp)

text \<open>The two moves of the controller, on doubles: the range needs a non-negative rate,
  the distance to the old level a rate of at most 1.\<close>

lemma flex_range:
  fixes c r :: real
  assumes "0 \<le> r" and "binary64 0.1 \<le> c" and "c \<le> 1"
  shows "binary64 0.1 \<le> min 1 (binary64 (c + r))" and "min 1 (binary64 (c + r)) \<le> 1"
    and "binary64 0.1 \<le> max (binary64 0.1) (binary64 (c - r))"
    and "max (binary64 0.1) (binary64 (c - r)) \<le> 1"
proof -
  have "binary64 0.1 \<le> c + r" using assms(1,2) by linarith
  then have "binary64 0.1 \<le> binary64 (c + r)" by (rule binary64_ge_tenth)
  then show "binary64 0.1 \<le> min 1 (binary64 (c + r))"
    using binary64_tenth_range(2) by (simp only: min_def) simp
  show "min 1 (binary64 (c + r)) \<le> 1" by simp
  show "binary64 0.1 \<le> max (binary64 0.1) (binary64 (c - r))" by simp
  have "c - r \<le> 1" using assms(1,3) by linarith
  then have "binary64 (c - r) \<le> 1" by (rule binary64_le_one)
  then show "max (binary64 0.1) (binary64 (c - r)) \<le> 1"
    using binary64_tenth_range(2) by (simp only: max_def) simp
qed

lemma flex_distance:
  fixes c r :: real
  assumes "0 \<le> r" and "r \<le> 1" and "binary64 0.1 \<le> c" and "c \<le> 1"
  shows "\<bar>min 1 (binary64 (c + r)) - c\<bar> \<le> r + 1 / 2 ^ 53"
    and "\<bar>max (binary64 0.1) (binary64 (c - r)) - c\<bar> \<le> r + 1 / 2 ^ 53"
proof -
  have c0: "0 \<le> c" using assms(3) binary64_tenth_range(1) by linarith
  have "- 2 < c + r" "c + r \<le> 2" using assms c0 by linarith+
  then have up: "\<bar>binary64 (c + r) - (c + r)\<bar> \<le> 1 / 2 ^ 53" by (rule binary64_error_le2)
  show "\<bar>min 1 (binary64 (c + r)) - c\<bar> \<le> r + 1 / 2 ^ 53"
  proof (cases "1 \<le> binary64 (c + r)")
    case True
    then have "min 1 (binary64 (c + r)) = 1" by simp
    moreover have "1 - c \<le> r + 1 / 2 ^ 53" using True up by linarith
    ultimately show ?thesis using assms(1,4) by linarith
  next
    case False
    then have "min 1 (binary64 (c + r)) = binary64 (c + r)" by simp
    then show ?thesis using up assms(1) by linarith
  qed
  have "- 2 < c - r" "c - r \<le> 2" using assms c0 by linarith+
  then have dn: "\<bar>binary64 (c - r) - (c - r)\<bar> \<le> 1 / 2 ^ 53" by (rule binary64_error_le2)
  show "\<bar>max (binary64 0.1) (binary64 (c - r)) - c\<bar> \<le> r + 1 / 2 ^ 53"
  proof (cases "binary64 (c - r) \<le> binary64 0.1")
    case True
    then have "max (binary64 0.1) (binary64 (c - r)) = binary64 0.1" by simp
    moreover have "c - binary64 0.1 \<le> r + 1 / 2 ^ 53"
      using True dn by linarith
    ultimately show ?thesis using assms(1,3) by linarith
  next
    case False
    then have "max (binary64 0.1) (binary64 (c - r)) = binary64 (c - r)" by simp
    then show ?thesis using dn assms(1) by linarith
  qed
qed

lemma workload_flex_compute_control:
  "workload_flex (fst (compute_control k sys gs)) =
     (if gs_renewable_pct gs \<ge> renewable_threshold_high k \<and> gs_grid_stress gs < 0.5
        then min 1 (binary64 (st_flex_workload (ss_it_load sys) + adjustment_rate k))
      else if gs_renewable_pct gs \<le> renewable_threshold_low k
                \<or> gs_grid_stress gs \<ge> stress_threshold_high k
        then max (binary64 0.1) (binary64 (st_flex_workload (ss_it_load sys) - adjustment_rate k))
      else st_flex_workload (ss_it_load sys))"
  by (simp add: compute_control_def Let_def)

lemma if_chain3: "P a \<Longrightarrow> P b \<Longrightarrow> P c \<Longrightarrow> P (if A then a else if B then b else c)"
  by simp

lemma compute_control_range:
  assumes "0 \<le> adjustment_rate k"
    and "binary64 0.1 \<le> st_flex_workload (ss_it_load sys)"
    and "st_flex_workload (ss_it_load sys) \<le> 1"
  shows "binary64 0.1 \<le> workload_flex (fst (compute_control k sys gs))"
    and "workload_flex (fst (compute_control k sys gs)) \<le> 1"
proof -
  note fr = flex_range [OF assms]
  show "binary64 0.1 \<le> workload_flex (fst (compute_control k sys gs))"
    unfolding workload_flex_compute_control
    by (rule if_chain3 [where P = "\<lambda>x. binary64 0.1 \<le> x"]) (rule fr(1) fr(3) assms(2))+
  show "workload_flex (fst (compute_control k sys gs)) \<le> 1"
    unfolding workload_flex_compute_control
    by (rule if_chain3 [where P = "\<lambda>x. x \<le> 1"]) (rule fr(2) fr(4) assms(3))+
qed

lemma compute_control_distance:
  assumes "0 \<le> adjustment_rate k" and "adjustment_rate k \<le> 1"
    and "binary64 0.1 \<le> st_flex_workload (ss_it_load sys)"
    and "st_flex_workload (ss_it_load sys) \<le> 1"
  shows "\<bar>workload_flex (fst (compute_control k sys gs)) - st_flex_workload (ss_it_load sys)\<bar>
           \<le> adjustment_rate k + 1 / 2 ^ 53"
proof -
  note fd = flex_distance [OF assms]
  have "\<bar>st_flex_workload (ss_it_load sys) - st_flex_workload (ss_it_load sys)\<bar>
          \<le> adjustment_rate k + 1 / 2 ^ 53"
    using assms(1) by simp
  then show ?thesis
    unfolding workload_flex_compute_control
    by (intro if_chain3 [where P = "\<lambda>x. \<bar>x - st_flex_workload (ss_it_load sys)\<bar>
                                          \<le> adjustment_rate k + 1 / 2 ^ 53"] fd)
qed

lemma flex_inv_init: "flex_inv (DataCenterOptimizer_init cfg ng nt)"
proof -
  have "binary64 0.1 \<le> binary64 0.3"
    by (rule binary64_ge_tenth) (simp add: binary64_tenth)
  moreover have "binary64 0.3 \<le> 1" by (rule binary64_le_one) simp
  ultimately show ?thesis
    by (simp only: flex_inv_def DataCenterOptimizer_init_def ITLoadModel_init_def
        DataCenterOptimizer.simps ITLoadModel.simps simp_thms)
qed

lemma flex_inv_step:
  assumes "0 \<le> adjustment_rate (controller s)" and "flex_inv s"
  shows "flex_inv (snd (step s u))"
proof (cases "get_system_state (snd (step_inputs s u))")
  case (Inl e)
  then have "step s u = (Inl e, snd (step_inputs s u))" by (simp add: step_def Let_def)
  then show ?thesis using assms(2) by (simp add: flex_inv_def step_inputs_fields)
next
  case (Inr sys)
  from get_system_state_flex [OF Inr]
  have cur: "st_flex_workload (ss_it_load sys) = flex_workload (it_load s)"
    by (simp add: step_inputs_fields)
  let ?w = "workload_flex (fst (compute_control (controller s) sys (fst (step_inputs s u))))"
  have c: "binary64 0.1 \<le> st_flex_workload (ss_it_load sys)"
    "st_flex_workload (ss_it_load sys) \<le> 1"
    using assms(2) by (simp_all only: cur flex_inv_def)
  have b: "binary64 0.1 \<le> ?w" "?w \<le> 1"
    by (rule compute_control_range [OF assms(1) c])+
  have "flex_workload (it_load (snd (step s u))) = np_clip ?w 0 1"
    unfolding step_unfold_ok [OF Inr] by (simp add: apply_control_fields)
  also have "\<dots> = ?w"
    using b binary64_tenth_range(1) by (intro np_clip_id) linarith+
  finally show ?thesis using b by (simp only: flex_inv_def simp_thms)
qed

lemma steps_fields:
  "adjustment_rate (controller (steps s us)) = adjustment_rate (controller s)"
  "total_capacity_kw (it_load (steps s us)) = total_capacity_kw (it_load s)"
  "timestep (steps s us) = timestep s"
  by (induction us arbitrary: s) (simp_all add: step_fields)

lemma flex_inv_steps:
  "0 \<le> adjustment_rate (controller s) \<Longrightarrow> flex_inv s \<Longrightarrow> flex_inv (steps s us)"
  by (induction us arbitrary: s) (simp_all add: flex_inv_step step_fields)

lemma renewable_noon: "generate_renewable_profile ! 12 = 19 / 25"
proof -
  have "generate_renewable_profile ! 12 =
      (let solar = max 0 (sin ((real 12 - 6) * pi / 12));
           wind_base = 0.4;
           wind_variation = 0.2 * sin (real 12 * pi / 12 + pi);
           wind = wind_base + wind_variation;
           renewable = 0.6 * solar + 0.4 * wind
       in np_clip renewable 0 1)"
    unfolding generate_renewable_profile_def by (subst nth_map) simp_all
  moreover have "(real 12 - 6) * pi / 12 = pi / 2" by simp
  moreover have "real 12 * pi / 12 + pi = 2 * pi" by simp
  ultimately show ?thesis by (simp add: Let_def np_clip_def)
qed

lemma noon_optimizer_fields:
  "adjustment_rate (controller noon_optimizer) = binary64 0.1"
  "renewable_threshold_high (controller noon_optimizer) = binary64 0.6"
  "flex_workload (it_load noon_optimizer) = binary64 0.3"
  "total_capacity_kw (it_load noon_optimizer) = 1000"
  "grid_current_time (grid noon_optimizer) = 43200"
  "renewable_profile (grid noon_optimizer) = generate_renewable_profile"
  "timestep noon_optimizer = 300"
  by (simp_all add: noon_optimizer_def DataCenterOptimizer_init_def create_default_config_def
      get_or_def ITLoadModel_init_def SimpleController_init_def GridSignalMonitor_init_def)

lemma noon_grid_state:
  "gs_renewable_pct (fst (step_inputs noon_optimizer 0)) = 19 / 25"
  "gs_grid_stress (fst (step_inputs noon_optimizer 0)) = 31 / 125"
proof -
  have h: "hour_of 43500 = 12" by (simp add: hour_of_def)
  show "gs_renewable_pct (fst (step_inputs noon_optimizer 0)) = 19 / 25"
    by (simp add: step_inputs_def Let_def GridSignalMonitor_update_def get_current_state_def
        noon_optimizer_fields h renewable_noon)
  show "gs_grid_stress (fst (step_inputs noon_optimizer 0)) = 31 / 125"
    by (simp add: step_inputs_def Let_def GridSignalMonitor_update_def get_current_state_def
        compute_stress_level_def noon_optimizer_fields h renewable_noon np_clip_def)
qed

lemma noon_snapshot_eq:
  "get_system_state (snd (step_inputs noon_optimizer 0)) = Inr noon_snapshot"
  "st_flex_workload (ss_it_load noon_snapshot) = binary64 0.3"
proof -
  have "total_capacity_kw (it_load (snd (step_inputs noon_optimizer 0))) \<noteq> 0"
    by (simp add: step_inputs_fields noon_optimizer_fields)
  from get_system_state_Inr [OF this] obtain sys
    where sys: "get_system_state (snd (step_inputs noon_optimizer 0)) = Inr sys"
      and fl: "st_flex_workload (ss_it_load sys)
                 = flex_workload (it_load (snd (step_inputs noon_optimizer 0)))"
    by blast
  have eq: "noon_snapshot = sys" by (simp add: noon_snapshot_def sys)
  show "get_system_state (snd (step_inputs noon_optimizer 0)) = Inr noon_snapshot"
    by (simp only: eq sys)
  show "st_flex_workload (ss_it_load noon_snapshot) = binary64 0.3"
    by (simp only: eq fl step_inputs_fields noon_optimizer_fields)
qed

lemma binary64_six_tenths_le: "binary64 0.6 \<le> 19 / 25"
proof -
  have "\<bar>binary64 0.6 - 0.6\<bar> \<le> 1 / 2 ^ 53" by (rule binary64_error) simp
  moreover have "(1 / 2 ^ 53 :: real) \<le> 4 / 25" by simp
  moreover have "(0.6 :: real) + 4 / 25 = 19 / 25" by simp
  ultimately show ?thesis by linarith
qed

text \<open>
  Claim C2, as stated, fails in its second part, by the rounding of the sum. With the
  default configuration, an adjustment rate of 0.1 and the first step at noon (renewable
  fraction 0.76, stress 0.248), the controller raises the flexible level from the double
  0.3 to the double nearest \<open>0.3 + 0.1\<close>, which is the double 0.4; the distance between
  these two doubles exceeds the double 0.1, the rate, by \<open>2 ^ -55\<close>.
\<close>

theorem controller_flex_target_counterexample:
  "0 \<le> adjustment_rate (controller noon_optimizer) \<and>
   adjustment_rate (controller noon_optimizer) \<le> 1 \<and>
   get_system_state (snd (step_inputs noon_optimizer 0)) = Inr noon_snapshot \<and>
   adjustment_rate (controller noon_optimizer)
     < \<bar>workload_flex (fst (compute_control (controller (snd (step_inputs noon_optimizer 0)))
                               noon_snapshot (fst (step_inputs noon_optimizer 0))))
          - st_flex_workload (ss_it_load noon_snapshot)\<bar>"
proof -
  have r: "0 \<le> adjustment_rate (controller noon_optimizer)"
    "adjustment_rate (controller noon_optimizer) \<le> 1"
    using binary64_tenth_range by (simp_all only: noon_optimizer_fields)
  have cond: "gs_renewable_pct (fst (step_inputs noon_optimizer 0))
                \<ge> renewable_threshold_high (controller noon_optimizer) \<and>
              gs_grid_stress (fst (step_inputs noon_optimizer 0)) < 0.5"
    using binary64_six_tenths_le by (simp add: noon_grid_state noon_optimizer_fields)
  have "workload_flex (fst (compute_control (controller (snd (step_inputs noon_optimizer 0)))
                               noon_snapshot (fst (step_inputs noon_optimizer 0))))
          = min 1 (binary64 (binary64 0.3 + binary64 0.1))"
    using cond
    by (simp only: workload_flex_compute_control step_inputs_fields noon_snapshot_eq
        noon_optimizer_fields simp_thms if_True)
  also have "\<dots> = binary64 (binary64 0.3 + binary64 0.1)"
    by (simp only: binary64_sum_three_one) simp
  finally have w: "workload_flex (fst (compute_control (controller (snd (step_inputs noon_optimizer 0)))
                               noon_snapshot (fst (step_inputs noon_optimizer 0))))
          = binary64 (binary64 0.3 + binary64 0.1)" .
  have "adjustment_rate (controller noon_optimizer)
     < \<bar>workload_flex (fst (compute_control (controller (snd (step_inputs noon_optimizer 0)))
                               noon_snapshot (fst (step_inputs noon_optimizer 0))))
          - st_flex_workload (ss_it_load noon_snapshot)\<bar>"
    unfolding w noon_snapshot_eq(2) noon_optimizer_fields(1) using binary64_excess by linarith
  with r noon_snapshot_eq(1) show ?thesis by (simp only: simp_thms)
qed

text \<open>
  Claim C2, amended. Start from a freshly constructed orchestrator (flexible utilisation
  0.3) whose adjustment rate lies in [0, 1], and let any number of steps run, with any
  random draws of the grid monitor. At the controller invocation of the next step,
  whenever the snapshot is taken, the returned \<open>workload_flex\<close> lies in [0.1, 1.0] (not
  below the double 0.1) and differs from the flexible level read from the snapshot by at most the
  adjustment rate plus \<open>2 ^ -53\<close>, the largest error of the one rounded sum or difference
  that computes it.
\<close>

theorem controller_flex_target_bounded:
  assumes "0 \<le> adjustment_rate (controller (DataCenterOptimizer_init cfg ng nt))"
    and "adjustment_rate (controller (DataCenterOptimizer_init cfg ng nt)) \<le> 1"
    and "s = steps (DataCenterOptimizer_init cfg ng nt) us"
    and "get_system_state (snd (step_inputs s u)) = Inr sys"
    and "ctl = fst (compute_control (controller (snd (step_inputs s u))) sys
                      (fst (step_inputs s u)))"
  shows "0.1 \<le> workload_flex ctl \<and> binary64 0.1 \<le> workload_flex ctl \<and>
         workload_flex ctl \<le> 1.0 \<and>
         \<bar>workload_flex ctl - st_flex_workload (ss_it_load sys)\<bar>
           \<le> adjustment_rate (controller (DataCenterOptimizer_init cfg ng nt)) + 1 / 2 ^ 53"
proof -
  let ?ini = "DataCenterOptimizer_init cfg ng nt"
  have rate: "adjustment_rate (controller s) = adjustment_rate (controller ?ini)"
    by (simp add: assms(3) steps_fields)
  have inv: "flex_inv s"
    unfolding assms(3) by (rule flex_inv_steps [OF assms(1) flex_inv_init])
  have cur: "st_flex_workload (ss_it_load sys) = flex_workload (it_load s)"
    using get_system_state_flex [OF assms(4)] by (simp add: step_inputs_fields)
  have r0: "0 \<le> adjustment_rate (controller s)" using assms(1) by (simp only: rate)
  have r1: "adjustment_rate (controller s) \<le> 1" using assms(2) by (simp only: rate)
  have c: "binary64 0.1 \<le> st_flex_workload (ss_it_load sys)"
    "st_flex_workload (ss_it_load sys) \<le> 1"
    using inv by (simp_all only: cur flex_inv_def)
  have ctl: "ctl = fst (compute_control (controller s) sys (fst (step_inputs s u)))"
    by (simp add: assms(5) step_inputs_fields)
  have t: "(0.1 :: real) \<le> binary64 0.1" by (simp add: binary64_tenth)
  show ?thesis
    using compute_control_range [OF r0 c, of "fst (step_inputs s u)"]
      compute_control_distance [OF r0 r1 c, of "fst (step_inputs s u)"] t
    by (simp only: ctl rate) simp
qed

text \<open>The default configuration (rate 0.2), after two steps with the draws 0 and 0.05.\<close>

theorem controller_flex_target_bounded_witness:
  "0 \<le> adjustment_rate (controller (DataCenterOptimizer_init (create_default_config 0 0) 0 0)) \<and>
   adjustment_rate (controller (DataCenterOptimizer_init (create_default_config 0 0) 0 0)) \<le> 1 \<and>
   (\<exists>sys. get_system_state
            (snd (step_inputs
                    (steps (DataCenterOptimizer_init (create_default_config 0 0) 0 0) [0, 0.05]) 0))
          = Inr sys \<and>
      0.1 \<le> workload_flex (fst (compute_control
               (controller (snd (step_inputs
                    (steps (DataCenterOptimizer_init (create_default_config 0 0) 0 0) [0, 0.05]) 0)))
               sys
               (fst (step_inputs
                    (steps (DataCenterOptimizer_init (create_default_config 0 0) 0 0) [0, 0.05]) 0)))) \<and>
      binary64 0.1 \<le> workload_flex (fst (compute_control
               (controller (snd (step_inputs
                    (steps (DataCenterOptimizer_init (create_default_config 0 0) 0 0) [0, 0.05]) 0)))
               sys
               (fst (step_inputs
                    (steps (DataCenterOptimizer_init (create_default_config 0 0) 0 0) [0, 0.05]) 0)))) \<and>
      workload_flex (fst (compute_control
               (controller (snd (step_inputs
                    (steps (DataCenterOptimizer_init (create_default_config 0 0) 0 0) [0, 0.05]) 0)))
               sys
               (fst (step_inputs
                    (steps (DataCenterOptimizer_init (create_default_config 0 0) 0 0) [0, 0.05]) 0))))
        \<le> 1.0 \<and>
      \<bar>workload_flex (fst (compute_control
               (controller (snd (step_inputs
                    (steps (DataCenterOptimizer_init (create_default_config 0 0) 0 0) [0, 0.05]) 0)))
               sys
               (fst (step_inputs
                    (steps (DataCenterOptimizer_init (create_default_config 0 0) 0 0) [0, 0.05]) 0))))
         - st_flex_workload (ss_it_load sys)\<bar>
        \<le> adjustment_rate (controller (DataCenterOptimizer_init (create_default_config 0 0) 0 0))
            + 1 / 2 ^ 53)"
proof -
  let ?ini = "DataCenterOptimizer_init (create_default_config 0 0) 0 0"
  let ?st = "steps ?ini [0, 0.05]"
  have "0 \<le> binary64 0.2" by (rule binary64_nonneg) simp
  moreover have "binary64 0.2 \<le> 1" by (rule binary64_le_one) simp
  ultimately have r: "0 \<le> adjustment_rate (controller ?ini)"
    "adjustment_rate (controller ?ini) \<le> 1"
    using default_optimizer_fields(2) by (simp_all only: default_optimizer_def)
  have "total_capacity_kw (it_load (snd (step_inputs ?st 0))) \<noteq> 0"
    using default_optimizer_fields(1)
    by (simp add: step_inputs_fields steps_fields default_optimizer_def del: steps.simps)
  then obtain sys where sys: "get_system_state (snd (step_inputs ?st 0)) = Inr sys"
    using get_system_state_Inr by blast
  from controller_flex_target_bounded [OF r refl sys refl] sys r show ?thesis by blast
qed

section \<open>Orchestrator: the outdoor temperature of a step\<close>

lemma sin_hour0: "(15::real) + 10 * sin ((real 0 - 6) * pi / 12) = 5"
proof -
  have "(real 0 - 6) * pi / 12 = - (pi / 2)" by simp
  then show ?thesis by simp
qed

lemma sin_hour5_neq:
  "(15::real) + 10 * sin ((real 5 - 6) * pi / 12) \<noteq> 15 + 10 * sin ((real 6 - 6) * pi / 12)"
proof -
  have "0 < sin (pi / 12)" by (rule sin_gt_zero) simp_all
  moreover have "(real 5 - 6) * pi / 12 = - (pi / 12)" by simp
  ultimately show ?thesis by (simp only: sin_minus) simp
qed

text \<open>
  Claim C3, as stated, fails: the hour carried by the grid state is read from the grid
  monitor's clock after it has been advanced by this step, the temperature from the
  orchestrator's clock, which is advanced at the end of the step. With the default
  configuration and both clocks at 05:55:00, the grid state of the first step carries hour
  6, for which the formula gives 15, and the temperature injected is that of hour 5.
\<close>

theorem step_outdoor_temperature_counterexample:
  "gs_hour (fst (step_inputs late_optimizer 0)) = 6 \<and>
   hour_of (current_time late_optimizer) = 5 \<and>
   gs_outdoor_temp_c (fst (step_inputs late_optimizer 0))
     \<noteq> Some (15 + 10 * sin ((real (gs_hour (fst (step_inputs late_optimizer 0))) - 6) * pi / 12)) \<and>
   outdoor_temp (cooling (snd (step late_optimizer 0)))
     \<noteq> 15 + 10 * sin ((real (gs_hour (fst (step_inputs late_optimizer 0))) - 6) * pi / 12)"
proof -
  have g: "gs_hour (fst (step_inputs late_optimizer 0)) = 6"
    by (simp add: step_inputs_fields late_optimizer_fields hour_of_values)
  have h: "hour_of (current_time late_optimizer) = 5"
    by (simp add: late_optimizer_fields hour_of_values)
  have o1: "gs_outdoor_temp_c (fst (step_inputs late_optimizer 0))
      = Some (15 + 10 * sin ((real 5 - 6) * pi / 12))"
    by (simp only: step_inputs_fields h)
  have o2: "outdoor_temp (cooling (snd (step late_optimizer 0)))
      = 15 + 10 * sin ((real 5 - 6) * pi / 12)"
    by (simp only: step_fields h)
  show ?thesis
  proof (intro conjI)
    show "gs_hour (fst (step_inputs late_optimizer 0)) = 6" by (rule g)
    show "hour_of (current_time late_optimizer) = 5" by (rule h)
    show "gs_outdoor_temp_c (fst (step_inputs late_optimizer 0))
       \<noteq> Some (15 + 10 * sin ((real (gs_hour (fst (step_inputs late_optimizer 0))) - 6) * pi / 12))"
      unfolding o1 g using sin_hour5_neq by simp
    show "outdoor_temp (cooling (snd (step late_optimizer 0)))
       \<noteq> 15 + 10 * sin ((real (gs_hour (fst (step_inputs late_optimizer 0))) - 6) * pi / 12)"
      unfolding o2 g using sin_hour5_neq by simp
  qed
qed

text \<open>
  Claim C3, amended. At every step, the outdoor temperature written into that step's grid
  state (which the grid monitor keeps as its current state) and pushed to the cooling model
  equals \<open>15 + 10 * sin ((h - 6) * pi / 12)\<close>, where \<open>h\<close> is the hour of day of the
  orchestrator's own clock at the start of the step; in particular a step that starts at
  hour 0 injects exactly 5.
\<close>

theorem step_outdoor_temperature:
  "gs_outdoor_temp_c (fst (step_inputs s u))
     = Some (15 + 10 * sin ((real (hour_of (current_time s)) - 6) * pi / 12)) \<and>
   current_state (grid (snd (step s u))) = Some (fst (step_inputs s u)) \<and>
   outdoor_temp (cooling (snd (step s u)))
     = 15 + 10 * sin ((real (hour_of (current_time s)) - 6) * pi / 12) \<and>
   (hour_of (current_time s) = 0 \<longrightarrow>
      gs_outdoor_temp_c (fst (step_inputs s u)) = Some 5 \<and>
      outdoor_temp (cooling (snd (step s u))) = 5)"
proof (intro conjI impI)
  assume h: "hour_of (current_time s) = 0"
  show "gs_outdoor_temp_c (fst (step_inputs s u)) = Some 5"
    using sin_hour0 by (simp only: step_inputs_fields h)
  show "outdoor_temp (cooling (snd (step s u))) = 5"
    using sin_hour0 by (simp only: step_fields h)
qed (simp_all only: step_inputs_fields step_fields)

section \<open>Orchestrator: the cooling mode and the controller's cooling parameters\<close>

text \<open>
  Claim C9. Take two executions of the part of a step that applies a controller output,
  on orchestrators that agree on the outdoor temperature, the free-cooling threshold and
  the target temperature (and whose IT model can compute its power), with any two
  controller outputs and grid states. The cooling model selects the same mode in both, the
  same mode is recorded in both histories, and it is the mode that \<open>determine_cooling_mode\<close>
  gives before the control is applied.
\<close>

theorem cooling_mode_independent_of_control:
  assumes "outdoor_temp (cooling s1) = outdoor_temp (cooling s2)"
    and "free_cooling_threshold (cooling s1) = free_cooling_threshold (cooling s2)"
    and "target_temp (cooling s1) = target_temp (cooling s2)"
    and "total_capacity_kw (it_load s1) \<noteq> 0" and "total_capacity_kw (it_load s2) \<noteq> 0"
  shows "current_mode (cooling (snd (apply_control s1 gs1 ctl1)))
           = current_mode (cooling (snd (apply_control s2 gs2 ctl2))) \<and>
         last (h_cooling_mode (history (snd (apply_control s1 gs1 ctl1))))
           = last (h_cooling_mode (history (snd (apply_control s2 gs2 ctl2)))) \<and>
         current_mode (cooling (snd (apply_control s1 gs1 ctl1)))
           = determine_cooling_mode (cooling s1)"
proof -
  have "determine_cooling_mode (cooling s1) = determine_cooling_mode (cooling s2)"
    by (rule determine_cooling_mode_cong [OF assms(1-3)])
  then show ?thesis
    by (simp add: apply_control_ok(4,5) [OF assms(4)] apply_control_ok(4,5) [OF assms(5)])
qed

text \<open>The first step of the default configuration, with two controller outputs that
  suggest different modes and setpoints.\<close>

theorem cooling_mode_independent_of_control_witness:
  "total_capacity_kw (it_load (snd (step_inputs default_optimizer 0))) \<noteq> 0 \<and>
   cp_mode (control_cooling_params control_free)
     \<noteq> cp_mode (control_cooling_params control_mechanical) \<and>
   cp_supply_temp (control_cooling_params control_free)
     \<noteq> cp_supply_temp (control_cooling_params control_mechanical) \<and>
   current_mode (cooling (snd (apply_control (snd (step_inputs default_optimizer 0))
                                 (fst (step_inputs default_optimizer 0)) control_free)))
     = current_mode (cooling (snd (apply_control (snd (step_inputs default_optimizer 0))
                                     (fst (step_inputs default_optimizer 0)) control_mechanical))) \<and>
   last (h_cooling_mode (history (snd (apply_control (snd (step_inputs default_optimizer 0))
                                 (fst (step_inputs default_optimizer 0)) control_free))))
     = last (h_cooling_mode (history (snd (apply_control (snd (step_inputs default_optimizer 0))
                                     (fst (step_inputs default_optimizer 0)) control_mechanical))))"
proof -
  have t: "total_capacity_kw (it_load (snd (step_inputs default_optimizer 0))) \<noteq> 0"
    by (simp add: step_inputs_fields default_optimizer_fields)
  have d: "cp_mode (control_cooling_params control_free)
             \<noteq> cp_mode (control_cooling_params control_mechanical)"
    "cp_supply_temp (control_cooling_params control_free)
             \<noteq> cp_supply_temp (control_cooling_params control_mechanical)"
    by (simp_all add: control_free_def control_mechanical_def)
  from cooling_mode_independent_of_control [OF refl refl refl t t] t d show ?thesis by blast
qed

section \<open>Results and the run loop\<close>

lemma get_results_empty:
  "h_pue (history s) = [] \<Longrightarrow> get_results s = Inl ValueError"
  by (simp add: get_results_def Let_def)

lemma get_results_nonempty:
  assumes "h_pue (history s) \<noteq> []"
  shows "\<exists>r. get_results s = Inr r \<and> res_history r = history s \<and> res_config r = dc_config s \<and>
             total_energy_kwh (res_summary r)
               = sum_list (h_total_power_kw (history s)) * (real_of_int (timestep s) / 3600)"
proof -
  from assms obtain x xs where "h_pue (history s) = x # xs" by (cases "h_pue (history s)") auto
  then show ?thesis by (simp add: get_results_def Let_def)
qed

lemma sum_list_scaled: "(\<Sum>p\<leftarrow>xs. p * c) = sum_list xs * (c::real)"
  by (induct xs) (simp_all add: algebra_simps)

text \<open>
  Claim C8. For every history that holds at least one step, \<open>get_results\<close> returns, and
  the \<open>total_energy_kwh\<close> of its summary equals the sum over the history entries of
  \<open>total_power_kw * (timestep_seconds / 3600)\<close>, exactly.
\<close>

theorem total_energy_is_sum_of_step_energies:
  assumes "h_pue (history s) \<noteq> []"
  shows "\<exists>r. get_results s = Inr r \<and>
             total_energy_kwh (res_summary r)
               = (\<Sum>p\<leftarrow>h_total_power_kw (history s). p * (real_of_int (timestep s) / 3600))"
proof -
  from get_results_nonempty [OF assms] obtain r where r: "get_results s = Inr r"
    and e: "total_energy_kwh (res_summary r)
              = sum_list (h_total_power_kw (history s)) * (real_of_int (timestep s) / 3600)"
    by blast
  have "(\<Sum>p\<leftarrow>h_total_power_kw (history s). p * (real_of_int (timestep s) / 3600))
          = sum_list (h_total_power_kw (history s)) * (real_of_int (timestep s) / 3600)"
    by (rule sum_list_scaled)
  with r e show ?thesis by (intro exI [of _ r]) (simp only: simp_thms)
qed

text \<open>The history after the first step of the default configuration.\<close>

theorem total_energy_is_sum_of_step_energies_witness:
  "h_pue (history (snd (step default_optimizer 0))) \<noteq> [] \<and>
   (\<exists>r. get_results (snd (step default_optimizer 0)) = Inr r \<and>
        total_energy_kwh (res_summary r)
          = (\<Sum>p\<leftarrow>h_total_power_kw (history (snd (step default_optimizer 0))).
               p * (real_of_int (timestep (snd (step default_optimizer 0))) / 3600)))"
proof -
  have "total_capacity_kw (it_load default_optimizer) \<noteq> 0"
    by (simp add: default_optimizer_fields)
  from step_ok(2) [OF this, of 0]
  have ne: "h_pue (history (snd (step default_optimizer 0))) \<noteq> []"
    by (simp add: appended_def one_more_def)
  from total_energy_is_sum_of_step_energies [OF ne] ne show ?thesis by blast
qed

text \<open>
  Claim C1. With the default configuration and a duration of 0 hours the number of steps
  is 0; \<open>run\<close> executes no step and then raises \<open>ValueError\<close> in \<open>get_results\<close>, where
  \<open>np.min\<close> is applied to the empty series of PUE values. No result structure is returned.
\<close>

theorem run_zero_steps_raises:
  "py_int ((0 * 3600) / real_of_int (timestep default_optimizer)) = 0 \<and>
   run default_optimizer 0 us = (Inl ValueError, default_optimizer) \<and>
   history default_optimizer = empty_history"
  by (simp add: run_def py_int_def default_optimizer_fields get_results_empty empty_history_def)

lemma run_loop_modulus_zero:
  assumes "total_capacity_kw (it_load s) \<noteq> 0" and "3600 div timestep s = 0"
  shows "run_loop s us i (Suc k) = (Some ZeroDivisionError, snd (step s (us i)))"
proof -
  obtain m where m: "step s (us i) = (Inr m, snd (step s (us i)))"
    using step_Inr [OF assms(1)] by blast
  have "3600 div timestep (snd (step s (us i))) = 0" using assms(2) by (simp add: step_fields)
  then show ?thesis by (subst run_loop.simps(2), subst m) simp
qed

text \<open>
  Claim C7. With the default configuration and a step of 7200 seconds, a run of 24 hours
  has \<open>N = 12\<close>; \<open>run\<close> executes the first step and then raises \<open>ZeroDivisionError\<close> in the
  progress test, whose modulus \<open>3600 // timestep\<close> is 0. Every series of the history then
  has length 1, not 12.
\<close>

theorem run_coarse_timestep_stops_after_one_step:
  "\<lfloor>(24 * 3600) / real_of_int (timestep coarse_optimizer)\<rfloor> = 12 \<and>
   fst (run coarse_optimizer 24 us) = Inl ZeroDivisionError \<and>
   list_all (\<lambda>n. n = 1) (series_lengths (history (snd (run coarse_optimizer 24 us))))"
proof -
  have n: "py_int ((24 * 3600) / real_of_int (timestep coarse_optimizer)) = 12"
    by (simp add: py_int_def coarse_optimizer_fields)
  have t: "total_capacity_kw (it_load coarse_optimizer) \<noteq> 0"
    "3600 div timestep coarse_optimizer = 0"
    by (simp_all add: coarse_optimizer_fields)
  have "nat 12 = Suc 11" by simp
  then have loop: "run_loop coarse_optimizer us 0 (nat 12)
      = (Some ZeroDivisionError, snd (step coarse_optimizer (us 0)))"
    using run_loop_modulus_zero [OF t, of us 0 11] by simp
  have t0: "timestep coarse_optimizer \<noteq> 0" by (simp add: coarse_optimizer_fields)
  have r: "run coarse_optimizer 24 us
             = (Inl ZeroDivisionError, snd (step coarse_optimizer (us 0)))"
    unfolding run_def Let_def n loop using t0 by simp
  have len: "list_all (\<lambda>n. n = 1)
               (series_lengths (history (snd (step coarse_optimizer (us 0)))))"
    unfolding appended_series_lengths [OF step_ok(2) [OF t(1), of "us 0"]]
    by (simp add: coarse_optimizer_fields empty_history_def series_lengths_def)
  show ?thesis using r len by (simp add: coarse_optimizer_fields)
qed

text \<open>
  Where the progress test cannot fault (a step size from 1 to 3600 seconds) and the IT
  model can compute its power, the loop runs to its end, and after \<open>k\<close> iterations every
  series is \<open>k\<close> entries longer.
\<close>

lemma run_loop_ok:
  assumes "total_capacity_kw (it_load s) \<noteq> 0" and "3600 div timestep s \<noteq> 0"
  shows "fst (run_loop s us i k) = None \<and>
         series_lengths (history (snd (run_loop s us i k)))
           = map (\<lambda>n. n + k) (series_lengths (history s)) \<and>
         timestep (snd (run_loop s us i k)) = timestep s \<and>
         dc_config (snd (run_loop s us i k)) = dc_config s"
  using assms
proof (induction k arbitrary: s i)
  case 0
  then show ?case by simp
next
  case (Suc k)
  obtain m where m: "step s (us i) = (Inr m, snd (step s (us i)))"
    using step_Inr [OF Suc.prems(1)] by blast
  let ?s' = "snd (step s (us i))"
  have t: "total_capacity_kw (it_load ?s') \<noteq> 0" "3600 div timestep ?s' \<noteq> 0"
    using Suc.prems by (simp_all add: step_fields)
  have eq: "run_loop s us i (Suc k) = run_loop ?s' us (Suc i) k"
    using t(2) by (subst run_loop.simps(2), subst m) simp
  have len: "series_lengths (history ?s') = map Suc (series_lengths (history s))"
    by (rule appended_series_lengths [OF step_ok(2) [OF Suc.prems(1)]])
  show ?case
    unfolding eq using Suc.IH [OF t, of "Suc i"] by (simp add: len step_fields)
qed

lemma empty_series_lengths:
  "history s = empty_history \<Longrightarrow>
   list_all (\<lambda>n. n = k) (map (\<lambda>n. n + k) (series_lengths (history s)))"
  by (simp add: empty_history_def series_lengths_def)

text \<open>
  A run on a fresh orchestrator, with a step size from 1 to 3600 seconds that fits at
  least once into the duration, returns its results, and every series has length
  \<open>floor (duration * 3600 / timestep)\<close>, the quotient being taken exactly.
\<close>

lemma run_ok:
  assumes "total_capacity_kw (it_load s) \<noteq> 0" and "0 < timestep s" and "timestep s \<le> 3600"
    and "real_of_int (timestep s) \<le> d * 3600" and "history s = empty_history"
  shows "\<exists>r. fst (run s d us) = Inr r \<and> res_history r = history (snd (run s d us)) \<and>
             list_all (\<lambda>n. n = nat \<lfloor>d * 3600 / real_of_int (timestep s)\<rfloor>)
               (series_lengths (res_history r))"
proof -
  let ?q = "d * 3600 / real_of_int (timestep s)"
  let ?k = "nat \<lfloor>?q\<rfloor>"
  have q1: "1 \<le> ?q" using assms(2,4) by (simp add: le_divide_eq)
  then have n: "py_int ?q = \<lfloor>?q\<rfloor>" by (simp add: py_int_def)
  have k1: "1 \<le> \<lfloor>?q\<rfloor>" using q1 by (simp add: le_floor_iff)
  have m: "3600 div timestep s \<noteq> 0"
    using pos_imp_zdiv_pos_iff [OF assms(2), of 3600] assms(3) by simp
  obtain e s' where loop: "run_loop s us 0 ?k = (e, s')" by (cases "run_loop s us 0 ?k")
  from run_loop_ok [OF assms(1) m, of us 0 ?k]
  have e: "e = None"
    and sl: "series_lengths (history s') = map (\<lambda>n. n + ?k) (series_lengths (history s))"
    by (simp_all add: loop)
  have len: "list_all (\<lambda>n. n = ?k) (series_lengths (history s'))"
    unfolding sl by (rule empty_series_lengths [OF assms(5)])
  then have "length (h_pue (history s')) = ?k" by (simp add: series_lengths_def)
  then have ne: "h_pue (history s') \<noteq> []" using k1 by auto
  have r: "run s d us = (get_results s', s')"
    using assms(2) by (simp add: run_def n Let_def loop e)
  from get_results_nonempty [OF ne] len show ?thesis by (auto simp: r)
qed

lemma run_loop_one:
  assumes "total_capacity_kw (it_load s) \<noteq> 0" and "3600 div timestep s \<noteq> 0"
  shows "run_loop s us i (Suc 0) = (None, snd (step s (us i)))"
proof -
  obtain m where m: "step s (us i) = (Inr m, snd (step s (us i)))"
    using step_Inr [OF assms(1)] by blast
  have "3600 div timestep (snd (step s (us i))) \<noteq> 0" using assms(2) by (simp add: step_fields)
  then show ?thesis by (subst run_loop.simps(2), subst m) simp
qed

lemma run_default_one_step:
  "snd (run default_optimizer (1 / 12) us) = snd (step default_optimizer (us 0))"
proof -
  have n: "nat (py_int ((1 / 12 * 3600) / real_of_int (timestep default_optimizer))) = Suc 0"
    by (simp add: py_int_def default_optimizer_fields)
  have t: "total_capacity_kw (it_load default_optimizer) \<noteq> 0"
    "3600 div timestep default_optimizer \<noteq> 0" "timestep default_optimizer \<noteq> 0"
    by (simp_all add: default_optimizer_fields)
  show ?thesis
    unfolding run_def Let_def n run_loop_one [OF t(1,2)] using t(3) by simp
qed

text \<open>The default configuration started at midnight: its first step, and a run of one
  step (five minutes), inject 5 degrees.\<close>

theorem step_outdoor_temperature_witness:
  "hour_of (current_time default_optimizer) = 0 \<and>
   gs_outdoor_temp_c (fst (step_inputs default_optimizer 0)) = Some 5 \<and>
   outdoor_temp (cooling (snd (step default_optimizer 0))) = 5 \<and>
   outdoor_temp (cooling (snd (run default_optimizer (1 / 12) (\<lambda>i. 0)))) = 5"
proof -
  have h: "hour_of (current_time default_optimizer) = 0"
    by (simp add: default_optimizer_fields hour_of_values)
  from step_outdoor_temperature [of default_optimizer 0] h show ?thesis
    by (simp add: run_default_one_step)
qed

end
